theory Spec2Isabelle
  imports Main
begin

section \<open>Exceptions and upload results\<close>

text \<open>
  The Python exceptions that \<^verbatim>\<open>gcs_upload.py\<close> raises or lets through, each with
  the text that \<^verbatim>\<open>str(e)\<close> gives. \<open>OtherException\<close> stands for any other subclass
  of \<^verbatim>\<open>Exception\<close> that a library call may raise.
\<close>

datatype exn =
    FileNotFoundError string
  | ValueError string
  | NotImplementedError string
  | IndexError string
  | GoogleCloudError string
  | OtherException string

fun message :: "exn \<Rightarrow> string" where
  "message (FileNotFoundError m) = m"
| "message (ValueError m) = m"
| "message (NotImplementedError m) = m"
| "message (IndexError m) = m"
| "message (GoogleCloudError m) = m"
| "message (OtherException m) = m"

text \<open>
  The result dictionaries of \<^verbatim>\<open>upload_file\<close> and \<^verbatim>\<open>upload_directory\<close>: the
  constructor is the dictionary's \<^verbatim>\<open>"status"\<close>, its arguments are the other keys.
\<close>

datatype upload_result =
    Success (res_source: string) (res_destination: string) (res_bucket: string)
      (res_size_bytes: nat) (res_content_type: string) (res_gs_uri: string)
      (res_public_url: "string option") (res_uploaded_at: string)
  | Skipped (res_reason: string) (res_destination: string)
  | Error (res_source: string) (res_error: string)

fun status :: "upload_result \<Rightarrow> string" where
  "status (Success s d b n t u p a) = ''success''"
| "status (Skipped r d) = ''skipped''"
| "status (Error s e) = ''error''"

section \<open>The local filesystem\<close>

text \<open>
  A path is the list of its components below the filesystem root. The tree has regular
  files (with their bytes), directories (their entries in the order \<^verbatim>\<open>scandir\<close> lists
  them), symbolic links (with their target, a path from the root) and special entries,
  which are none of these (a socket, a FIFO). Every directory can be listed and searched:
  access permissions are outside the model.
\<close>

type_synonym path = "string list"

datatype node = File string | Dir "(string \<times> node) list" | Special | Link path

text \<open>
  The entry of a directory under a name: no entry has the empty name, \<^verbatim>\<open>.\<close> or
  \<^verbatim>\<open>..\<close>, and of two entries of one name the first is the entry. \<open>tree_lookup\<close>
  descends through entries only; \<open>scandir\<close> lists the entries of a directory.
\<close>

definition special_name :: "string \<Rightarrow> bool" where
  "special_name x = (x = [] \<or> x = ''.'' \<or> x = ''..'')"

fun child :: "node \<Rightarrow> string \<Rightarrow> node option" where
  "child (Dir es) x = (if special_name x then None else map_of es x)"
| "child (File d) x = None"
| "child Special x = None"
| "child (Link t) x = None"

fun tree_lookup :: "node \<Rightarrow> path \<Rightarrow> node option" where
  "tree_lookup n [] = Some n"
| "tree_lookup n (c # cs) =
     (case child n c of None \<Rightarrow> None | Some m \<Rightarrow> tree_lookup m cs)"

definition scandir :: "node \<Rightarrow> (string \<times> node) list" where
  "scandir n =
     (case n of Dir es \<Rightarrow> filter (\<lambda>e. child n (fst e) = Some (snd e)) es | _ \<Rightarrow> [])"

text \<open>
  The operating system's resolution of a path, from the directory \<open>cur\<close> (given without
  links, \<^verbatim>\<open>.\<close> or \<^verbatim>\<open>..\<close>) through the remaining components: the empty component
  and \<^verbatim>\<open>.\<close> stay, \<^verbatim>\<open>..\<close> goes to the parent, a symbolic link is followed from the
  root, and each of these needs a directory to start from. The result is the path of the
  object without links, \<^verbatim>\<open>.\<close> or \<^verbatim>\<open>..\<close>; there is none when a component is missing,
  when a component that is not the last is no directory, and when more links would have
  to be followed than \<open>fuel\<close> allows. \<open>lookup\<close> is \<^verbatim>\<open>stat\<close>: the object a path leads to,
  following at most 40 links, as Linux does.
\<close>

fun walk :: "node \<Rightarrow> nat \<Rightarrow> path \<Rightarrow> path \<Rightarrow> path option" where
  "walk r fuel cur [] = Some cur"
| "walk r fuel cur (c # cs) =
     (case tree_lookup r cur of
        Some (Dir es) \<Rightarrow>
          (if c = [] \<or> c = ''.'' then walk r fuel cur cs
           else if c = ''..'' then walk r fuel (butlast cur) cs
           else (case child (Dir es) c of
                   None \<Rightarrow> None
                 | Some (Link target) \<Rightarrow>
                     (case fuel of 0 \<Rightarrow> None | Suc k \<Rightarrow> walk r k [] (target @ cs))
                 | Some m \<Rightarrow> walk r fuel (cur @ [c]) cs))
      | _ \<Rightarrow> None)"

definition lookup :: "node \<Rightarrow> path \<Rightarrow> node option" where
  "lookup r p = (case walk r 40 [] p of None \<Rightarrow> None | Some q \<Rightarrow> tree_lookup r q)"

text \<open>
  The host: its filesystem and the library functions whose tables and conventions the
  script takes as they are. \<open>sep\<close> is \<^verbatim>\<open>os.sep\<close> and \<open>altsep\<close> is
  \<^verbatim>\<open>os.altsep\<close>; \<open>anchor\<close> is what \<^verbatim>\<open>str\<close> puts in
  front of the components of an absolute path (\<^verbatim>\<open>/\<close>, or a drive and a backslash);
  \<open>locate\<close> is \<^verbatim>\<open>Path(s).resolve()\<close> on a string; \<open>parse_parts\<close> is pathlib's parsing
  of a string into anchor and components; \<open>fnmatch\<close> is the matcher of one glob
  component against one name; \<open>guess_type\<close> is \<^verbatim>\<open>mimetypes.guess_type\<close>;
  \<open>utcnow\<close> is the clock, read after the given number of Storage Client calls;
  \<open>load_credentials\<close> is the parsing of a service account key file.
\<close>

record host =
  root :: node
  sep :: char
  altsep :: "char option"
  anchor :: string
  locate :: "string \<Rightarrow> path"
  parse_parts :: "string \<Rightarrow> string \<times> string list"
  fnmatch :: "string \<Rightarrow> string \<Rightarrow> bool"
  guess_type :: "string \<Rightarrow> string option"
  utcnow :: "nat \<Rightarrow> string"
  default_credentials_path :: string
  load_credentials :: "string \<Rightarrow> exn option"

definition exists :: "host \<Rightarrow> path \<Rightarrow> bool" where
  "exists h p = (case lookup (root h) p of None \<Rightarrow> False | Some n \<Rightarrow> True)"

definition is_file :: "host \<Rightarrow> path \<Rightarrow> bool" where
  "is_file h p = (case lookup (root h) p of Some (File d) \<Rightarrow> True | _ \<Rightarrow> False)"

definition is_dir :: "host \<Rightarrow> path \<Rightarrow> bool" where
  "is_dir h p = (case lookup (root h) p of Some (Dir es) \<Rightarrow> True | _ \<Rightarrow> False)"

definition name :: "path \<Rightarrow> string" where
  "name p = (if p = [] then [] else last p)"

fun join :: "string \<Rightarrow> string list \<Rightarrow> string" where
  "join s [] = []"
| "join s [x] = x"
| "join s (x # y # ys) = x @ s @ join s (y # ys)"

definition str_pure :: "host \<Rightarrow> string \<Rightarrow> string list \<Rightarrow> string" where
  "str_pure h a parts = (if a = [] \<and> parts = [] then ''.'' else a @ join [sep h] parts)"

definition str_abs :: "host \<Rightarrow> path \<Rightarrow> string" where
  "str_abs h p = str_pure h (anchor h) p"

definition relative_to :: "path \<Rightarrow> path \<Rightarrow> exn + string list" where
  "relative_to p d =
     (if take (length d) p = d then Inr (drop (length d) p)
      else Inl (ValueError ''path is not in the subpath of the other path''))"

subsection \<open>pathlib's glob and rglob\<close>

text \<open>
  \<^verbatim>\<open>Path.glob\<close> and \<^verbatim>\<open>Path.rglob\<close> as CPython 3.11 implements them. The pattern is
  parsed into components, and an empty component is added when the pattern ends in a
  separator. Each component becomes a selector: the empty one the terminating selector,
  \<^verbatim>\<open>**\<close> the recursive one, a component with \<^verbatim>\<open>*\<close>, \<^verbatim>\<open>?\<close> or \<^verbatim>\<open>[\<close> the
  wildcard one, any other the precise one; a selector that has a successor keeps
  directories only. The paths selected are the starting path extended by the names
  chosen, so they may run through \<^verbatim>\<open>..\<close> and through symbolic links; the recursive
  selector does not descend into a directory that is a symbolic link.
\<close>

definition is_wildcard_pattern :: "string \<Rightarrow> bool" where
  "is_wildcard_pattern pat =
     list_ex (\<lambda>c. c = CHR ''*'' \<or> c = CHR ''?'' \<or> c = CHR ''['') pat"

fun has_double_star :: "string \<Rightarrow> bool" where
  "has_double_star (a # b # cs) = ((a = CHR ''*'' \<and> b = CHR ''*'') \<or> has_double_star (b # cs))"
| "has_double_star cs = False"

fun iterate_directories :: "path \<Rightarrow> node \<Rightarrow> path list" where
  "iterate_directories p (Dir es) =
     p # concat (map (\<lambda>e. if child (Dir es) (fst e) = Some (snd e)
                           then iterate_directories (p @ [fst e]) (snd e) else []) es)"
| "iterate_directories p (File d) = []"
| "iterate_directories p Special = []"
| "iterate_directories p (Link t) = []"

fun dedup :: "'a list \<Rightarrow> 'a list \<Rightarrow> 'a list" where
  "dedup yielded [] = []"
| "dedup yielded (x # xs) =
     (if x \<in> set yielded then dedup yielded xs else x # dedup (x # yielded) xs)"

fun select_from :: "host \<Rightarrow> string list \<Rightarrow> path \<Rightarrow> path list" where
  "select_from h [] parent_path = [parent_path]"
| "select_from h (pat # child_parts) parent_path =
     (if pat = [] then [parent_path]
      else if pat = ''**'' then
        (case lookup (root h) parent_path of
           None \<Rightarrow> []
         | Some n \<Rightarrow>
             dedup [] (concat (map (select_from h child_parts)
               (iterate_directories parent_path n))))
      else if is_wildcard_pattern pat then
        concat (map (\<lambda>e. select_from h child_parts (parent_path @ [fst e]))
          (filter (\<lambda>e. (child_parts = [] \<or> is_dir h (parent_path @ [fst e]))
                      \<and> fnmatch h pat (fst e))
             (case lookup (root h) parent_path of None \<Rightarrow> [] | Some n \<Rightarrow> scandir n)))
      else
        (if (if child_parts = [] then exists h (parent_path @ [pat])
             else is_dir h (parent_path @ [pat]))
         then select_from h child_parts (parent_path @ [pat])
         else []))"

text \<open>
  \<^verbatim>\<open>_make_selector\<close> builds the selectors of all components before any is used, and
  raises on a component that holds \<^verbatim>\<open>**\<close> and more; it stops at an empty component.
  Without any component it raises \<^verbatim>\<open>IndexError\<close>.
\<close>

fun selector_error :: "string list \<Rightarrow> exn option" where
  "selector_error [] = None"
| "selector_error (pat # child_parts) =
     (if pat = [] then None
      else if pat \<noteq> ''**'' \<and> has_double_star pat
      then Some (ValueError ''Invalid pattern: ** can only be an entire path component'')
      else selector_error child_parts)"

definition make_selector_error :: "string list \<Rightarrow> exn option" where
  "make_selector_error pattern_parts =
     (if pattern_parts = [] then Some (IndexError ''tuple index out of range'')
      else selector_error pattern_parts)"

definition ends_with_separator :: "host \<Rightarrow> string \<Rightarrow> bool" where
  "ends_with_separator h pattern =
     (pattern \<noteq> [] \<and> (last pattern = sep h \<or> altsep h = Some (last pattern)))"

definition pattern_parts_of :: "host \<Rightarrow> string \<Rightarrow> string list \<Rightarrow> string list" where
  "pattern_parts_of h pattern parsed =
     (if ends_with_separator h pattern then parsed @ [[]] else parsed)"

text \<open>
  In \<^verbatim>\<open>glob\<close>, a pattern whose first component is the empty one gives the terminating
  selector to a call of \<^verbatim>\<open>select_from\<close>, which that selector does not have: an
  \<^verbatim>\<open>AttributeError\<close>.
\<close>

definition glob :: "host \<Rightarrow> path \<Rightarrow> string \<Rightarrow> exn + path list" where
  "glob h p pattern =
     (if pattern = [] then Inl (ValueError ''Unacceptable pattern'')
      else (case parse_parts h pattern of (a, parsed) \<Rightarrow>
        (if a \<noteq> [] then Inl (NotImplementedError ''Non-relative patterns are unsupported'')
         else (case make_selector_error (pattern_parts_of h pattern parsed) of
             Some e \<Rightarrow> Inl e
           | None \<Rightarrow>
               (if hd (pattern_parts_of h pattern parsed) = []
                then Inl (OtherException
                       ''_TerminatingSelector object has no attribute select_from'')
                else Inr (if is_dir h p
                          then select_from h (pattern_parts_of h pattern parsed) p
                          else []))))))"

definition rglob :: "host \<Rightarrow> path \<Rightarrow> string \<Rightarrow> exn + path list" where
  "rglob h p pattern =
     (case parse_parts h pattern of (a, parsed) \<Rightarrow>
        (if a \<noteq> [] then Inl (NotImplementedError ''Non-relative patterns are unsupported'')
         else (case make_selector_error (''**'' # pattern_parts_of h pattern parsed) of
             Some e \<Rightarrow> Inl e
           | None \<Rightarrow>
               Inr (if is_dir h p
                    then select_from h (''**'' # pattern_parts_of h pattern parsed) p
                    else []))))"

section \<open>The Storage Client\<close>

text \<open>
  The bucket service as the script sees it through \<^verbatim>\<open>google.cloud.storage\<close>: the
  objects, keyed by bucket and blob name, and the calls received so far. Two oracles make
  the model cover what the script cannot control: \<open>faults\<close> decides, from the calls so
  far, whether the next call raises (transport, authentication, quota), and \<open>rivals\<close>
  is what other writers do to the objects just before a call arrives. A write with
  \<^verbatim>\<open>if_generation_match\<close> goes through only when the object's generation is the given
  one, where an absent object has generation 0.
\<close>

record blob =
  payload :: string
  blob_content_type :: string
  blob_metadata :: "(string \<times> string) list option"
  generation :: nat
  acl_public :: bool

datatype call =
    Exists string string
  | UploadFromFilename string string string string "(string \<times> string) list option"
      "nat option"
  | MakePublic string string
  | ListBuckets
  | ListBlobs string "string option" nat

type_synonym objects = "string \<times> string \<Rightarrow> blob option"

record cloud =
  objects :: objects
  calls :: "call list"
  faults :: "call list \<Rightarrow> call \<Rightarrow> exn option"
  rivals :: "call list \<Rightarrow> objects \<Rightarrow> objects"
  buckets :: "string list"
  listing :: "string \<Rightarrow> string option \<Rightarrow> nat \<Rightarrow> (string \<times> nat option) list"
  blob_public_url :: "string \<Rightarrow> string \<Rightarrow> string"

definition arrive :: "cloud \<Rightarrow> call \<Rightarrow> cloud" where
  "arrive c k = c\<lparr>objects := rivals c (calls c) (objects c), calls := calls c @ [k]\<rparr>"

definition generation_of :: "blob option \<Rightarrow> nat" where
  "generation_of b = (case b of None \<Rightarrow> 0 | Some x \<Rightarrow> generation x)"

definition blob_exists :: "cloud \<Rightarrow> string \<Rightarrow> string \<Rightarrow> (exn + bool) \<times> cloud" where
  "blob_exists c b n =
     (let k = Exists b n; c1 = arrive c k in
      case faults c (calls c) k of
        Some e \<Rightarrow> (Inl e, c1)
      | None \<Rightarrow> (Inr (case objects c1 (b, n) of None \<Rightarrow> False | Some x \<Rightarrow> True), c1))"

definition upload_from_filename ::
  "cloud \<Rightarrow> string \<Rightarrow> string \<Rightarrow> string \<Rightarrow> string \<Rightarrow> string \<Rightarrow>
   (string \<times> string) list option \<Rightarrow> nat option \<Rightarrow> (exn + unit) \<times> cloud" where
  "upload_from_filename c b n filename data ctype md if_generation_match =
     (let k = UploadFromFilename b n filename ctype md if_generation_match;
          c1 = arrive c k in
      case faults c (calls c) k of
        Some e \<Rightarrow> (Inl e, c1)
      | None \<Rightarrow>
          (let g = generation_of (objects c1 (b, n)) in
           if (case if_generation_match of None \<Rightarrow> False | Some m \<Rightarrow> m \<noteq> g)
           then (Inl (GoogleCloudError ''412 conditionNotMet''), c1)
           else (Inr (),
                 c1\<lparr>objects := (objects c1)((b, n) \<mapsto>
                   \<lparr>payload = data, blob_content_type = ctype, blob_metadata = md,
                    generation = Suc g, acl_public = False\<rparr>)\<rparr>)))"

definition make_public :: "cloud \<Rightarrow> string \<Rightarrow> string \<Rightarrow> (exn + unit) \<times> cloud" where
  "make_public c b n =
     (let k = MakePublic b n; c1 = arrive c k in
      case faults c (calls c) k of
        Some e \<Rightarrow> (Inl e, c1)
      | None \<Rightarrow>
          (case objects c1 (b, n) of
             None \<Rightarrow> (Inl (GoogleCloudError ''404 No such object''), c1)
           | Some x \<Rightarrow> (Inr (), c1\<lparr>objects := (objects c1)((b, n) \<mapsto> x\<lparr>acl_public := True\<rparr>)\<rparr>)))"

definition client_list_buckets :: "cloud \<Rightarrow> (exn + string list) \<times> cloud" where
  "client_list_buckets c =
     (let c1 = arrive c ListBuckets in
      case faults c (calls c) ListBuckets of
        Some e \<Rightarrow> (Inl e, c1)
      | None \<Rightarrow> (Inr (buckets c), c1))"

definition client_list_blobs ::
  "cloud \<Rightarrow> string \<Rightarrow> string option \<Rightarrow> nat \<Rightarrow> (exn + (string \<times> nat option) list) \<times> cloud" where
  "client_list_blobs c b prefix max_results =
     (let k = ListBlobs b prefix max_results; c1 = arrive c k in
      case faults c (calls c) k of
        Some e \<Rightarrow> (Inl e, c1)
      | None \<Rightarrow> (Inr (listing c b prefix max_results), c1))"

section \<open>GCSUploader\<close>

subsection \<open>upload_file\<close>

definition resolve_content_type :: "host \<Rightarrow> path \<Rightarrow> string option \<Rightarrow> string" where
  "resolve_content_type h source_path content_type =
     (case content_type of
        Some t \<Rightarrow> t
      | None \<Rightarrow>
          (case guess_type h (str_abs h source_path) of
             None \<Rightarrow> ''application/octet-stream''
           | Some t \<Rightarrow> if t = [] then ''application/octet-stream'' else t))"

definition blob_name :: "path \<Rightarrow> string option \<Rightarrow> string" where
  "blob_name source_path destination_blob_name =
     (case destination_blob_name of None \<Rightarrow> name source_path | Some d \<Rightarrow> d)"

definition blob_metadata_of :: "(string \<times> string) list option \<Rightarrow> (string \<times> string) list option" where
  "blob_metadata_of metadata =
     (case metadata of None \<Rightarrow> None | Some m \<Rightarrow> if m = [] then None else Some m)"

definition gs_uri_of :: "string \<Rightarrow> string \<Rightarrow> string" where
  "gs_uri_of bucket_name destination_blob_name =
     ''gs://'' @ bucket_name @ ''/'' @ destination_blob_name"

text \<open>
  The part of \<^verbatim>\<open>upload_file\<close> after the existence check: the write, the optional
  \<^verbatim>\<open>make_public\<close>, and the result dictionary. An exception of the write or of
  \<^verbatim>\<open>make_public\<close> is logged and raised again.
\<close>

definition do_upload ::
  "host \<Rightarrow> cloud \<Rightarrow> string \<Rightarrow> path \<Rightarrow> string \<Rightarrow> string \<Rightarrow> string \<Rightarrow>
   (string \<times> string) list option \<Rightarrow> bool \<Rightarrow> bool \<Rightarrow> (exn + upload_result) \<times> cloud" where
  "do_upload h c bucket_name source_path data destination_blob_name content_type metadata
     make_public_flag overwrite =
     (let file_size = length data;
          generation_match = (if \<not> overwrite then Some 0 else None) in
      case upload_from_filename c bucket_name destination_blob_name (str_abs h source_path)
             data content_type (blob_metadata_of metadata)
             (if \<not> overwrite then generation_match else None) of
        (Inl e, c2) \<Rightarrow> (Inl e, c2)
      | (Inr u, c2) \<Rightarrow>
          (if make_public_flag then
             (case make_public c2 bucket_name destination_blob_name of
                (Inl e, c3) \<Rightarrow> (Inl e, c3)
              | (Inr u3, c3) \<Rightarrow>
                  (Inr (Success (str_abs h source_path) destination_blob_name bucket_name
                     file_size content_type (gs_uri_of bucket_name destination_blob_name)
                     (Some (blob_public_url c3 bucket_name destination_blob_name))
                     (utcnow h (length (calls c3)))), c3))
           else
             (Inr (Success (str_abs h source_path) destination_blob_name bucket_name
                file_size content_type (gs_uri_of bucket_name destination_blob_name)
                None (utcnow h (length (calls c2)))), c2)))"

text \<open>
  \<^verbatim>\<open>upload_file\<close>, from the source path as \<^verbatim>\<open>Path(source_path).resolve()\<close> leaves
  it.
\<close>

definition upload_file ::
  "host \<Rightarrow> cloud \<Rightarrow> string \<Rightarrow> path \<Rightarrow> string option \<Rightarrow> string option \<Rightarrow>
   (string \<times> string) list option \<Rightarrow> bool \<Rightarrow> bool \<Rightarrow> (exn + upload_result) \<times> cloud" where
  "upload_file h c bucket_name source_path destination_blob_name content_type metadata
     make_public_flag overwrite =
     (case lookup (root h) source_path of
        None \<Rightarrow>
          (Inl (FileNotFoundError (''Source file not found: '' @ str_abs h source_path)), c)
      | Some (Dir es) \<Rightarrow>
          (Inl (ValueError (''Source path is not a file: '' @ str_abs h source_path)), c)
      | Some Special \<Rightarrow>
          (Inl (ValueError (''Source path is not a file: '' @ str_abs h source_path)), c)
      | Some (Link t) \<Rightarrow>
          (Inl (ValueError (''Source path is not a file: '' @ str_abs h source_path)), c)
      | Some (File data) \<Rightarrow>
          (let dest = blob_name source_path destination_blob_name;
               ctype = resolve_content_type h source_path content_type in
           if \<not> overwrite then
             (case blob_exists c bucket_name dest of
                (Inl e, c1) \<Rightarrow> (Inl e, c1)
              | (Inr found, c1) \<Rightarrow>
                  (if found then (Inr (Skipped ''blob_exists'' dest), c1)
                   else do_upload h c1 bucket_name source_path data dest ctype metadata
                          make_public_flag overwrite))
           else do_upload h c bucket_name source_path data dest ctype metadata
                  make_public_flag overwrite))"

subsection \<open>upload_directory\<close>

definition replace_backslash :: "string \<Rightarrow> string" where
  "replace_backslash s = map (\<lambda>ch. if ch = CHR 0x5C then CHR ''/'' else ch) s"

definition destination_for :: "host \<Rightarrow> string \<Rightarrow> string list \<Rightarrow> string" where
  "destination_for h destination_prefix relative_path =
     replace_backslash
       (if destination_prefix \<noteq> [] then
          (case parse_parts h destination_prefix of
             (a, parts) \<Rightarrow> str_pure h a (parts @ relative_path))
        else str_pure h [] relative_path)"

text \<open>
  The body of the loop over the discovered files. \<^verbatim>\<open>relative_to\<close> stands outside the
  \<^verbatim>\<open>try\<close>, so its exception would leave the loop; every exception of
  \<^verbatim>\<open>upload_file\<close> becomes an error entry. \<^verbatim>\<open>upload_file\<close> receives the string of
  the discovered path and resolves it.
\<close>

definition upload_one ::
  "host \<Rightarrow> cloud \<Rightarrow> string \<Rightarrow> path \<Rightarrow> string \<Rightarrow> string option \<Rightarrow>
   (string \<times> string) list option \<Rightarrow> bool \<Rightarrow> bool \<Rightarrow> path \<Rightarrow>
   exn + upload_result \<times> cloud" where
  "upload_one h c bucket_name source_dir destination_prefix content_type metadata
     make_public_flag overwrite file_path =
     (case relative_to file_path source_dir of
        Inl e \<Rightarrow> Inl e
      | Inr relative_path \<Rightarrow>
          (let dest = destination_for h destination_prefix relative_path in
           case upload_file h c bucket_name (locate h (str_abs h file_path)) (Some dest)
                  content_type metadata make_public_flag overwrite of
             (Inr result, c1) \<Rightarrow> Inr (result, c1)
           | (Inl e, c1) \<Rightarrow> Inr (Error (str_abs h file_path) (message e), c1)))"

fun upload_loop ::
  "host \<Rightarrow> string \<Rightarrow> path \<Rightarrow> string \<Rightarrow> string option \<Rightarrow>
   (string \<times> string) list option \<Rightarrow> bool \<Rightarrow> bool \<Rightarrow> path list \<Rightarrow>
   upload_result list \<Rightarrow> cloud \<Rightarrow> (exn + upload_result list) \<times> cloud" where
  "upload_loop h bucket_name source_dir destination_prefix content_type metadata
     make_public_flag overwrite [] results c = (Inr results, c)"
| "upload_loop h bucket_name source_dir destination_prefix content_type metadata
     make_public_flag overwrite (file_path # files) results c =
     (case upload_one h c bucket_name source_dir destination_prefix content_type metadata
             make_public_flag overwrite file_path of
        Inl e \<Rightarrow> (Inl e, c)
      | Inr (result, c1) \<Rightarrow>
          upload_loop h bucket_name source_dir destination_prefix content_type metadata
            make_public_flag overwrite files (results @ [result]) c1)"

definition discover :: "host \<Rightarrow> path \<Rightarrow> string \<Rightarrow> bool \<Rightarrow> exn + path list" where
  "discover h source_dir pattern recursive =
     (case (if recursive then rglob h source_dir pattern else glob h source_dir pattern) of
        Inl e \<Rightarrow> Inl e
      | Inr files \<Rightarrow> Inr (filter (is_file h) files))"

definition upload_directory ::
  "host \<Rightarrow> cloud \<Rightarrow> string \<Rightarrow> path \<Rightarrow> string \<Rightarrow> string \<Rightarrow> bool \<Rightarrow> string option \<Rightarrow>
   (string \<times> string) list option \<Rightarrow> bool \<Rightarrow> bool \<Rightarrow> (exn + upload_result list) \<times> cloud" where
  "upload_directory h c bucket_name source_dir destination_prefix pattern recursive
     content_type metadata make_public_flag overwrite =
     (case lookup (root h) source_dir of
        None \<Rightarrow>
          (Inl (FileNotFoundError (''Source directory not found: '' @ str_abs h source_dir)), c)
      | Some (File d) \<Rightarrow>
          (Inl (ValueError (''Source path is not a directory: '' @ str_abs h source_dir)), c)
      | Some Special \<Rightarrow>
          (Inl (ValueError (''Source path is not a directory: '' @ str_abs h source_dir)), c)
      | Some (Link t) \<Rightarrow>
          (Inl (ValueError (''Source path is not a directory: '' @ str_abs h source_dir)), c)
      | Some (Dir es) \<Rightarrow>
          (case discover h source_dir pattern recursive of
             Inl e \<Rightarrow> (Inl e, c)
           | Inr files \<Rightarrow>
               (if files = [] then (Inr [], c)
                else upload_loop h bucket_name source_dir destination_prefix content_type
                       metadata make_public_flag overwrite files [] c)))"

subsection \<open>The constructor and the listings\<close>

text \<open>
  \<^verbatim>\<open>GCSUploader.__init__\<close>: the credentials file must exist and be a regular file
  (\<^verbatim>\<open>_validate_credentials\<close>), and the key it holds must load.
\<close>

definition gcs_uploader_init :: "host \<Rightarrow> string option \<Rightarrow> exn + unit" where
  "gcs_uploader_init h credentials_path =
     (let credentials_file =
            (case credentials_path of
               None \<Rightarrow> default_credentials_path h
             | Some s \<Rightarrow> if s = [] then default_credentials_path h else s) in
      case lookup (root h) (locate h credentials_file) of
        None \<Rightarrow> Inl (FileNotFoundError (''Credentials file not found: '' @ credentials_file))
      | Some (Dir es) \<Rightarrow>
          Inl (ValueError (''Credentials path is not a file: '' @ credentials_file))
      | Some Special \<Rightarrow>
          Inl (ValueError (''Credentials path is not a file: '' @ credentials_file))
      | Some (Link t) \<Rightarrow>
          Inl (ValueError (''Credentials path is not a file: '' @ credentials_file))
      | Some (File key) \<Rightarrow>
          (case load_credentials h key of Some e \<Rightarrow> Inl e | None \<Rightarrow> Inr ()))"

definition list_buckets :: "cloud \<Rightarrow> (exn + string list) \<times> cloud" where
  "list_buckets c = client_list_buckets c"

definition list_blobs ::
  "cloud \<Rightarrow> string \<Rightarrow> string option \<Rightarrow> nat \<Rightarrow> (exn + (string \<times> nat option) list) \<times> cloud" where
  "list_blobs c bucket_name prefix max_results = client_list_blobs c bucket_name prefix max_results"

section \<open>The command line\<close>

text \<open>
  The namespace that \<^verbatim>\<open>parse_args\<close> returns, with the defaults filled in.
\<close>

record args =
  arg_bucket_name :: string
  arg_source :: "string option"
  arg_destination :: "string option"
  arg_credentials :: "string option"
  arg_recursive :: bool
  arg_pattern :: string
  arg_content_type :: "string option"
  arg_public :: bool
  arg_no_overwrite :: bool
  arg_list_buckets :: bool
  arg_list :: bool
  arg_prefix :: "string option"
  arg_verbose :: bool

text \<open>
  The three \<^verbatim>\<open>except\<close> clauses of \<^verbatim>\<open>main\<close>, in their order; each returns 1.
\<close>

fun handled :: "exn \<Rightarrow> nat" where
  "handled (FileNotFoundError m) = 1"
| "handled (GoogleCloudError m) = 1"
| "handled e = 1"

text \<open>
  \<^verbatim>\<open>parser.error\<close> prints the usage and ends the process with status 2 through
  \<^verbatim>\<open>SystemExit\<close>, which is not an \<^verbatim>\<open>Exception\<close> and so passes the
  \<^verbatim>\<open>except\<close> clauses.
\<close>

definition parser_error :: nat where
  "parser_error = 2"

text \<open>
  \<^verbatim>\<open>main\<close> from the parsed arguments on: the process exit status and the state of
  the bucket service afterwards.
\<close>

definition main :: "host \<Rightarrow> cloud \<Rightarrow> args \<Rightarrow> nat \<times> cloud" where
  "main h c a =
     (case gcs_uploader_init h (arg_credentials a) of
        Inl e \<Rightarrow> (handled e, c)
      | Inr uploader \<Rightarrow>
          (if arg_list_buckets a then
             (case list_buckets c of
                (Inl e, c1) \<Rightarrow> (handled e, c1)
              | (Inr bs, c1) \<Rightarrow> (0, c1))
           else if arg_bucket_name a = [] then (parser_error, c)
           else if arg_list a then
             (case list_blobs c (arg_bucket_name a) (arg_prefix a) 100 of
                (Inl e, c1) \<Rightarrow> (handled e, c1)
              | (Inr blobs, c1) \<Rightarrow> (0, c1))
           else
             (case arg_source a of
                None \<Rightarrow> (parser_error, c)
              | Some s \<Rightarrow>
                  (if s = [] then (parser_error, c)
                   else
                     (let source_path = locate h s in
                      if is_dir h source_path \<or> arg_recursive a then
                        (case upload_directory h c (arg_bucket_name a) source_path
                                (case arg_destination a of None \<Rightarrow> [] | Some d \<Rightarrow> d)
                                (arg_pattern a) (arg_recursive a) (arg_content_type a) None
                                (arg_public a) (\<not> arg_no_overwrite a) of
                           (Inl e, c1) \<Rightarrow> (handled e, c1)
                         | (Inr results, c1) \<Rightarrow>
                             (if list_ex (\<lambda>r. status r = ''error'') results then (1, c1)
                              else (0, c1)))
                      else
                        (case upload_file h c (arg_bucket_name a) source_path
                                (arg_destination a) (arg_content_type a) None
                                (arg_public a) (\<not> arg_no_overwrite a) of
                           (Inl e, c1) \<Rightarrow> (handled e, c1)
                         | (Inr result, c1) \<Rightarrow>
                             (if status result = ''error'' then (1, c1) else (0, c1))))))))"

section \<open>The claim on discovery, in the specification's words\<close>



text \<open>
  What links a file of the batch to its entry: a success carries the file's resolved path
  and the derived destination, a skip the derived destination, an error the file's path
  as it was discovered.
\<close>

definition entry_of :: "host \<Rightarrow> path \<Rightarrow> string \<Rightarrow> path \<Rightarrow> upload_result \<Rightarrow> bool" where
  "entry_of h source_dir destination_prefix file_path r =
     (case r of
        Success s d b n t u p a \<Rightarrow>
          s = str_abs h (locate h (str_abs h file_path))
          \<and> d = destination_for h destination_prefix (drop (length source_dir) file_path)
      | Skipped why d \<Rightarrow>
          d = destination_for h destination_prefix (drop (length source_dir) file_path)
      | Error s e \<Rightarrow> s = str_abs h file_path)"

section \<open>Example hosts and bucket services\<close>

text \<open>
  A matcher for patterns of \<^verbatim>\<open>*\<close>, \<^verbatim>\<open>?\<close> and literal characters, and the POSIX
  flavour's parsing of a path string: the components between slashes, without the empty
  ones and the dots, and the root as one slash or, for exactly two leading slashes, two.
\<close>

fun wild_match :: "string \<Rightarrow> string \<Rightarrow> bool" where
  "wild_match [] s = (s = [])"
| "wild_match (p # ps) [] = (p = CHR ''*'' \<and> wild_match ps [])"
| "wild_match (p # ps) (ch # cs) =
     (if p = CHR ''*'' then wild_match ps (ch # cs) \<or> wild_match (p # ps) cs
      else (p = CHR ''?'' \<or> p = ch) \<and> wild_match ps cs)"

fun split_on :: "(char \<Rightarrow> bool) \<Rightarrow> string \<Rightarrow> string list" where
  "split_on is_sep [] = [[]]"
| "split_on is_sep (ch # cs) =
     (if is_sep ch then [] # split_on is_sep cs
      else (case split_on is_sep cs of [] \<Rightarrow> [[ch]] | w # ws \<Rightarrow> (ch # w) # ws))"

definition components :: "(char \<Rightarrow> bool) \<Rightarrow> string \<Rightarrow> string list" where
  "components is_sep s = filter (\<lambda>x. x \<noteq> [] \<and> x \<noteq> ''.'') (split_on is_sep s)"

definition posix_parse_parts :: "string \<Rightarrow> string \<times> string list" where
  "posix_parse_parts s =
     ((if take 2 s = ''//'' \<and> take 3 s \<noteq> ''///'' then ''//''
       else if take 1 s = ''/'' then ''/'' else []),
      components (\<lambda>ch. ch = CHR ''/'') s)"


definition demo_guess_type :: "string \<Rightarrow> string option" where
  "demo_guess_type s =
     (if drop (length s - 4) s = ''.pdf'' then Some ''application/pdf''
      else if drop (length s - 5) s = ''.json'' then Some ''application/json''
      else if drop (length s - 4) s = ''.txt'' then Some ''text/plain''
      else None)"

text \<open>
  The example tree: a directory \<^verbatim>\<open>/a\<close> of files with a subdirectory and a socket, the
  directory of the key file, and a directory \<^verbatim>\<open>/links\<close> with links to a regular file,
  to itself, to nothing and to a directory, beside one regular file.
\<close>

definition demo_tree :: node where
  "demo_tree =
     Dir [(''a'', Dir [(''x.pdf'', File ''%PDF''),
                      (''x.json'', File ''{}''),
                      (''b'', Dir [(''c.txt'', File ''hello'')]),
                      (''z.sock'', Special)]),
          (''keys'', Dir [(''upload.json'', File ''key'')]),
          (''links'', Dir [(''f.txt'', Link [''a'', ''b'', ''c.txt'']),
                          (''loop'', Link [''links'', ''loop'']),
                          (''gone'', Link [''nowhere'']),
                          (''r.txt'', File ''r''),
                          (''d'', Link [''a'', ''b''])])]"

definition demo_locate :: "string \<Rightarrow> path" where
  "demo_locate s =
     (case walk demo_tree 40 [] (snd (posix_parse_parts s)) of
        None \<Rightarrow> snd (posix_parse_parts s)
      | Some q \<Rightarrow> q)"

definition demo_host :: host where
  "demo_host =
     \<lparr>root = demo_tree, sep = CHR ''/'', altsep = None, anchor = ''/'',
      locate = demo_locate,
      parse_parts = posix_parse_parts, fnmatch = wild_match,
      guess_type = demo_guess_type, utcnow = (\<lambda>n. ''2024-05-01T12:00:00''),
      default_credentials_path = ''/keys/upload.json'',
      load_credentials = (\<lambda>key. None)\<rparr>"



text \<open>
  Bucket services: an empty one that never fails; one that already holds the blob
  \<^verbatim>\<open>x.pdf\<close>; one whose write of \<^verbatim>\<open>x.json\<close> fails in transport; one where another
  writer creates the blob \<^verbatim>\<open>x.pdf\<close> between the existence check and the write.
\<close>

definition quiet_cloud :: cloud where
  "quiet_cloud =
     \<lparr>objects = (\<lambda>k. None), calls = [], faults = (\<lambda>cs k. None), rivals = (\<lambda>cs os. os),
      buckets = [''docs''], listing = (\<lambda>b p n. []),
      blob_public_url = (\<lambda>b n. ''https://storage.googleapis.com/'' @ b @ ''/'' @ n)\<rparr>"

definition other_blob :: blob where
  "other_blob =
     \<lparr>payload = ''other'', blob_content_type = ''text/plain'', blob_metadata = None,
      generation = 7, acl_public = False\<rparr>"

definition stocked_cloud :: cloud where
  "stocked_cloud = quiet_cloud\<lparr>objects := (\<lambda>k. None)((''docs'', ''x.pdf'') \<mapsto> other_blob)\<rparr>"

fun is_write_of :: "string \<Rightarrow> call \<Rightarrow> bool" where
  "is_write_of n (UploadFromFilename b m f t md g) = (m = n)"
| "is_write_of n k = False"

definition flaky_cloud :: cloud where
  "flaky_cloud =
     quiet_cloud\<lparr>faults := (\<lambda>cs k. if is_write_of ''x.json'' k
                                    then Some (GoogleCloudError ''503 Service Unavailable'')
                                    else None)\<rparr>"

definition racing_cloud :: cloud where
  "racing_cloud =
     quiet_cloud\<lparr>rivals := (\<lambda>cs os. if cs = [Exists ''docs'' ''x.pdf'']
                                   then os((''docs'', ''x.pdf'') \<mapsto> other_blob) else os)\<rparr>"

text \<open>
  The arguments of \<^verbatim>\<open>gcs_upload.py docs /a --recursive\<close>.
\<close>

definition demo_args :: args where
  "demo_args =
     \<lparr>arg_bucket_name = ''docs'', arg_source = Some ''/a'', arg_destination = None,
      arg_credentials = None, arg_recursive = True, arg_pattern = ''*'',
      arg_content_type = None, arg_public = False, arg_no_overwrite = False,
      arg_list_buckets = False, arg_list = False, arg_prefix = None, arg_verbose = False\<rparr>"

section \<open>Basic facts\<close>

lemma calls_arrive [simp]: "calls (arrive c k) = calls c @ [k]"
  by (simp add: arrive_def)

lemma objects_arrive [simp]: "objects (arrive c k) = rivals c (calls c) (objects c)"
  by (simp add: arrive_def)

lemma is_file_lookup: "is_file h p = (\<exists>data. lookup (root h) p = Some (File data))"
  by (auto simp: is_file_def split: option.splits node.splits)

lemma is_dir_lookup: "is_dir h p = (\<exists>es. lookup (root h) p = Some (Dir es))"
  by (auto simp: is_dir_def split: option.splits node.splits)

lemmas demo_fs = demo_host_def demo_tree_def exists_def is_file_def is_dir_def
  str_abs_def str_pure_def name_def lookup_def special_name_def demo_locate_def

lemmas demo_client = quiet_cloud_def stocked_cloud_def flaky_cloud_def racing_cloud_def
  other_blob_def blob_exists_def upload_from_filename_def make_public_def arrive_def
  generation_of_def

lemmas demo_upload = upload_file_def do_upload_def blob_name_def resolve_content_type_def
  demo_guess_type_def blob_metadata_of_def gs_uri_of_def Let_def

section \<open>Single-file upload\<close>

text \<open>
  C7. \<^verbatim>\<open>upload_file\<close> raises \<^verbatim>\<open>FileNotFoundError\<close> when the source path does not
  exist and \<^verbatim>\<open>ValueError\<close> when it exists and is not a regular file;
  \<^verbatim>\<open>upload_directory\<close> raises \<^verbatim>\<open>FileNotFoundError\<close> when the source directory does
  not exist and \<^verbatim>\<open>ValueError\<close> when it exists and is not a directory. In all four
  cases the bucket service is returned as it was: no call has reached the Storage Client,
  and the outcome is the exception, not a batch.
\<close>

theorem fail_fast_on_bad_source:
  "(\<not> exists h source_path \<longrightarrow>
      upload_file h c bucket_name source_path destination_blob_name content_type metadata
        make_public_flag overwrite
      = (Inl (FileNotFoundError (''Source file not found: '' @ str_abs h source_path)), c))
   \<and> (exists h source_path \<and> \<not> is_file h source_path \<longrightarrow>
      upload_file h c bucket_name source_path destination_blob_name content_type metadata
        make_public_flag overwrite
      = (Inl (ValueError (''Source path is not a file: '' @ str_abs h source_path)), c))
   \<and> (\<not> exists h source_dir \<longrightarrow>
      upload_directory h c bucket_name source_dir destination_prefix pattern recursive
        content_type metadata make_public_flag overwrite
      = (Inl (FileNotFoundError (''Source directory not found: '' @ str_abs h source_dir)), c))
   \<and> (exists h source_dir \<and> \<not> is_dir h source_dir \<longrightarrow>
      upload_directory h c bucket_name source_dir destination_prefix pattern recursive
        content_type metadata make_public_flag overwrite
      = (Inl (ValueError (''Source path is not a directory: '' @ str_abs h source_dir)), c))"
  by (auto simp: upload_file_def upload_directory_def exists_def is_file_def is_dir_def
      split: option.splits node.splits)

theorem fail_fast_on_bad_source_witness:
  "\<not> exists demo_host [''a'', ''missing.pdf'']
   \<and> upload_file demo_host quiet_cloud ''docs'' [''a'', ''missing.pdf''] None None None
         False True
       = (Inl (FileNotFoundError ''Source file not found: /a/missing.pdf''), quiet_cloud)
   \<and> exists demo_host [''a'', ''b''] \<and> \<not> is_file demo_host [''a'', ''b'']
   \<and> upload_file demo_host quiet_cloud ''docs'' [''a'', ''b''] None None None False True
       = (Inl (ValueError ''Source path is not a file: /a/b''), quiet_cloud)
   \<and> \<not> exists demo_host [''nowhere'']
   \<and> upload_directory demo_host quiet_cloud ''docs'' [''nowhere''] [] ''*'' True None None
         False True
       = (Inl (FileNotFoundError ''Source directory not found: /nowhere''), quiet_cloud)
   \<and> exists demo_host [''a'', ''x.pdf''] \<and> \<not> is_dir demo_host [''a'', ''x.pdf'']
   \<and> upload_directory demo_host quiet_cloud ''docs'' [''a'', ''x.pdf''] [] ''*'' True None
         None False True
       = (Inl (ValueError ''Source path is not a directory: /a/x.pdf''), quiet_cloud)"
proof -
  have h1: "\<not> exists demo_host [''a'', ''missing.pdf'']"
    and h2: "exists demo_host [''a'', ''b''] \<and> \<not> is_file demo_host [''a'', ''b'']"
    and h3: "\<not> exists demo_host [''nowhere'']"
    and h4: "exists demo_host [''a'', ''x.pdf''] \<and> \<not> is_dir demo_host [''a'', ''x.pdf'']"
    by (simp_all add: demo_fs)
  have s: "str_abs demo_host [''a'', ''missing.pdf''] = ''/a/missing.pdf''"
    "str_abs demo_host [''a'', ''b''] = ''/a/b''"
    "str_abs demo_host [''nowhere''] = ''/nowhere''"
    "str_abs demo_host [''a'', ''x.pdf''] = ''/a/x.pdf''"
    by (simp_all add: demo_fs)
  show ?thesis
    using h1 h2 h3 h4
      fail_fast_on_bad_source [of demo_host "[''a'', ''missing.pdf'']" quiet_cloud "''docs''"
        None None None False True "[''nowhere'']" "[]" "''*''" True]
      fail_fast_on_bad_source [of demo_host "[''a'', ''b'']" quiet_cloud "''docs''"
        None None None False True "[''a'', ''x.pdf'']" "[]" "''*''" True]
    by (simp add: s)
qed

text \<open>
  C3. When \<^verbatim>\<open>upload_file\<close> is called on a regular file with \<^verbatim>\<open>overwrite\<close> false and
  the Storage Client answers that the target blob exists, the result is the skip entry
  with reason \<^verbatim>\<open>blob_exists\<close> (neither an exception nor a success), the one call the
  Storage Client has received is the existence query, and the objects are as the query
  found them: no write was attempted.
\<close>

theorem skipped_when_blob_exists:
  assumes "is_file h source_path" and "\<not> overwrite"
    and "fst (blob_exists c bucket_name (blob_name source_path destination_blob_name))
         = Inr True"
  shows "fst (upload_file h c bucket_name source_path destination_blob_name content_type
            metadata make_public_flag overwrite)
         = Inr (Skipped ''blob_exists'' (blob_name source_path destination_blob_name))
       \<and> calls (snd (upload_file h c bucket_name source_path destination_blob_name
            content_type metadata make_public_flag overwrite))
         = calls c @ [Exists bucket_name (blob_name source_path destination_blob_name)]
       \<and> objects (snd (upload_file h c bucket_name source_path destination_blob_name
            content_type metadata make_public_flag overwrite))
         = rivals c (calls c) (objects c)"
proof -
  from assms(1) obtain data where f: "lookup (root h) source_path = Some (File data)"
    by (auto simp: is_file_lookup)
  obtain r c1 where
    e: "blob_exists c bucket_name (blob_name source_path destination_blob_name) = (r, c1)"
    by (cases "blob_exists c bucket_name (blob_name source_path destination_blob_name)")
  with assms(3) have r: "r = Inr True" by simp
  have c1: "c1 = arrive c (Exists bucket_name (blob_name source_path destination_blob_name))"
    using e by (auto simp: blob_exists_def Let_def split: option.splits)
  show ?thesis
    using f assms(2) e r c1 by (simp add: upload_file_def Let_def)
qed

theorem skipped_when_blob_exists_witness:
  "is_file demo_host [''a'', ''x.pdf'']
   \<and> fst (blob_exists stocked_cloud ''docs'' (blob_name [''a'', ''x.pdf''] None)) = Inr True
   \<and> fst (upload_file demo_host stocked_cloud ''docs'' [''a'', ''x.pdf''] None None None
            True False)
       = Inr (Skipped ''blob_exists'' ''x.pdf'')
   \<and> calls (snd (upload_file demo_host stocked_cloud ''docs'' [''a'', ''x.pdf''] None None
            None True False))
       = [Exists ''docs'' ''x.pdf'']"
proof -
  have h1: "is_file demo_host [''a'', ''x.pdf'']"
    by (simp add: demo_fs)
  have h2: "fst (blob_exists stocked_cloud ''docs'' (blob_name [''a'', ''x.pdf''] None))
            = Inr True"
    by (simp add: demo_client blob_name_def name_def)
  have n: "blob_name [''a'', ''x.pdf''] None = ''x.pdf''"
    by (simp add: blob_name_def name_def)
  have k: "calls stocked_cloud = []"
    by (simp add: demo_client)
  show ?thesis
    using h1 h2
      skipped_when_blob_exists [of demo_host "[''a'', ''x.pdf'']" False stocked_cloud
        "''docs''" None None None True, OF h1 _ h2]
    by (simp add: n k)
qed

text \<open>
  C8. Every success entry that \<^verbatim>\<open>upload_file\<close> returns is determined in each of its
  fields: the path of the source, the destination name, the bucket, the byte length of
  the local file, the content type (given or guessed), the URI
  \<^verbatim>\<open>gs://bucket/destination\<close>, the public URL exactly when the blob was made public,
  and the time of the clock.
\<close>

theorem success_fields:
  assumes "upload_file h c bucket_name source_path destination_blob_name content_type
             metadata make_public_flag overwrite = (Inr r, c')"
    and "status r = ''success''"
  shows "\<exists>data. lookup (root h) source_path = Some (File data)
       \<and> r = Success (str_abs h source_path)
               (blob_name source_path destination_blob_name)
               bucket_name
               (length data)
               (resolve_content_type h source_path content_type)
               (''gs://'' @ bucket_name @ ''/'' @ blob_name source_path destination_blob_name)
               (if make_public_flag
                then Some (blob_public_url c' bucket_name
                             (blob_name source_path destination_blob_name))
                else None)
               (utcnow h (length (calls c')))"
  using assms
  by (auto simp: upload_file_def do_upload_def Let_def gs_uri_of_def
      split: option.splits node.splits prod.splits sum.splits if_splits)

theorem success_fields_witness:
  "fst (upload_file demo_host quiet_cloud ''docs'' [''a'', ''x.pdf''] (Some ''m/x.pdf'') None
          None True True)
   = Inr (Success ''/a/x.pdf'' ''m/x.pdf'' ''docs'' 4 ''application/pdf''
            ''gs://docs/m/x.pdf'' (Some ''https://storage.googleapis.com/docs/m/x.pdf'')
            ''2024-05-01T12:00:00'')
   \<and> lookup (root demo_host) [''a'', ''x.pdf''] = Some (File ''%PDF'')"
proof -
  let ?u = "upload_file demo_host quiet_cloud ''docs'' [''a'', ''x.pdf''] (Some ''m/x.pdf'')
              None None True True"
  let ?r = "Success ''/a/x.pdf'' ''m/x.pdf'' ''docs'' 4 ''application/pdf''
              ''gs://docs/m/x.pdf'' (Some ''https://storage.googleapis.com/docs/m/x.pdf'')
              ''2024-05-01T12:00:00''"
  have f: "fst ?u = Inr ?r"
    by (simp add: demo_upload demo_client demo_fs)
  then have h1: "?u = (Inr ?r, snd ?u)"
    by (metis prod.collapse)
  have h2: "status ?r = ''success''"
    by simp
  from success_fields [OF h1 h2] have "lookup (root demo_host) [''a'', ''x.pdf'']
      = Some (File ''%PDF'')"
    by (auto simp: demo_fs)
  with f show ?thesis by simp
qed

section \<open>Discovery stays below the source directory\<close>

lemma set_dedup: "set (dedup ys xs) = set xs - set ys"
  by (induction ys xs rule: dedup.induct) auto

lemma iterate_directories_below:
  "q \<in> set (iterate_directories p n) \<Longrightarrow> take (length p) q = p"
proof (induction p n arbitrary: q rule: iterate_directories.induct)
  case (1 p es)
  show ?case
  proof (cases "q = p")
    case True
    then show ?thesis by simp
  next
    case False
    with "1.prems" obtain e where e: "e \<in> set es"
      and ch: "child (Dir es) (fst e) = Some (snd e)"
      and q: "q \<in> set (iterate_directories (p @ [fst e]) (snd e))"
      by (auto split: if_splits)
    from "1.IH" [OF e ch q] have "take (Suc (length p)) q = p @ [fst e]"
      by simp
    then have "take (length p) (take (Suc (length p)) q) = take (length p) (p @ [fst e])"
      by simp
    then show ?thesis by (simp add: min_def)
  qed
qed simp_all

lemma select_from_below:
  "q \<in> set (select_from h parts p) \<Longrightarrow> take (length p) q = p"
proof (induction parts arbitrary: p q)
  case Nil
  then show ?case by simp
next
  case (Cons pat child_parts)
  have step: "take (length p) q = p" if "take (length r) q = r" and "take (length p) r = p"
    for r
  proof -
    have "length p \<le> length r"
      using that(2) by (metis length_take min.cobounded1 nat_le_linear take_all)
    then have "take (length p) (take (length r) q) = take (length p) q"
      by (simp add: min_def)
    with that show ?thesis by simp
  qed
  show ?case
  proof (cases "pat = []")
    case True
    with Cons.prems show ?thesis by simp
  next
  case ne: False
  show ?thesis
  proof (cases "pat = ''**''")
    case True
    with Cons.prems obtain n where n: "lookup (root h) p = Some n"
      by (cases "lookup (root h) p") auto
    with True Cons.prems obtain r where r: "r \<in> set (iterate_directories p n)"
      and q: "q \<in> set (select_from h child_parts r)"
      by (auto simp: set_dedup)
    from Cons.IH [OF q] iterate_directories_below [OF r] show ?thesis
      by (rule step)
  next
    case notrec: False
    show ?thesis
    proof (cases "is_wildcard_pattern pat")
      case True
      with ne notrec Cons.prems obtain e where
        q: "q \<in> set (select_from h child_parts (p @ [fst e]))"
        by auto
      from Cons.IH [OF q] have "take (length (p @ [fst e])) q = p @ [fst e]" .
      moreover have "take (length p) (p @ [fst e]) = p" by simp
      ultimately show ?thesis by (rule step)
    next
      case False
      with ne notrec Cons.prems have
        q: "q \<in> set (select_from h child_parts (p @ [pat]))"
        by (auto split: if_splits)
      from Cons.IH [OF q] have "take (length (p @ [pat])) q = p @ [pat]" .
      moreover have "take (length p) (p @ [pat]) = p" by simp
      ultimately show ?thesis by (rule step)
    qed
  qed
  qed
qed

lemma discover_below:
  assumes "discover h source_dir pattern recursive = Inr files" and "f \<in> set files"
  shows "take (length source_dir) f = source_dir"
proof -
  from assms obtain found where
    g: "(if recursive then rglob h source_dir pattern else glob h source_dir pattern)
        = Inr found"
    and f: "f \<in> set found"
    by (auto simp: discover_def split: sum.splits)
  from g obtain parts where "found = [] \<or> found = select_from h parts source_dir"
    by (auto simp: glob_def rglob_def simp del: select_from.simps
        split: if_splits sum.splits prod.splits option.splits)
  with f show ?thesis
    by (auto dest: select_from_below)
qed

section \<open>The loop of upload_directory\<close>

lemma upload_file_never_error_entry:
  "upload_file h c bucket_name source_path destination_blob_name content_type metadata
     make_public_flag overwrite = (Inr r, c1)
   \<Longrightarrow> (\<exists>s n t u p a. r = Success s (blob_name source_path destination_blob_name)
                              bucket_name n t u p a \<and> s = str_abs h source_path)
       \<or> r = Skipped ''blob_exists'' (blob_name source_path destination_blob_name)"
  by (auto simp: upload_file_def do_upload_def Let_def
      split: option.splits node.splits prod.splits sum.splits if_splits)

lemma upload_one_entry:
  assumes "take (length source_dir) file_path = source_dir"
  shows "\<exists>r c1. upload_one h c bucket_name source_dir destination_prefix content_type
                  metadata make_public_flag overwrite file_path = Inr (r, c1)
          \<and> entry_of h source_dir destination_prefix file_path r
          \<and> c1 = snd (upload_file h c bucket_name (locate h (str_abs h file_path))
                   (Some (destination_for h destination_prefix
                            (drop (length source_dir) file_path)))
                   content_type metadata make_public_flag overwrite)
          \<and> r = (case fst (upload_file h c bucket_name (locate h (str_abs h file_path))
                   (Some (destination_for h destination_prefix
                            (drop (length source_dir) file_path)))
                   content_type metadata make_public_flag overwrite) of
                   Inr result \<Rightarrow> result
                 | Inl e \<Rightarrow> Error (str_abs h file_path) (message e))"
proof -
  let ?dest = "destination_for h destination_prefix (drop (length source_dir) file_path)"
  let ?u = "upload_file h c bucket_name (locate h (str_abs h file_path)) (Some ?dest)
              content_type metadata
              make_public_flag overwrite"
  have rel: "relative_to file_path source_dir = Inr (drop (length source_dir) file_path)"
    using assms by (simp add: relative_to_def)
  obtain x c1 where u: "?u = (x, c1)" by (cases ?u)
  show ?thesis
  proof (cases x)
    case (Inl e)
    with u rel show ?thesis
      by (simp add: upload_one_def Let_def entry_of_def)
  next
    case (Inr r)
    with u have "?u = (Inr r, c1)" by simp
    from upload_file_never_error_entry [OF this] have "entry_of h source_dir destination_prefix file_path r"
      by (auto simp: entry_of_def blob_name_def)
    with Inr u rel show ?thesis
      by (simp add: upload_one_def Let_def)
  qed
qed

lemma upload_loop_entries:
  assumes "\<forall>f \<in> set files. take (length source_dir) f = source_dir"
  shows "\<exists>rs c'. upload_loop h bucket_name source_dir destination_prefix content_type metadata
                   make_public_flag overwrite files acc c = (Inr (acc @ rs), c')
           \<and> list_all2 (entry_of h source_dir destination_prefix) files rs"
  using assms
proof (induction files arbitrary: acc c)
  case Nil
  then show ?case by simp
next
  case (Cons f files)
  from Cons.prems have "take (length source_dir) f = source_dir" by simp
  from upload_one_entry [OF this] obtain r c1 where
    one: "upload_one h c bucket_name source_dir destination_prefix content_type metadata
            make_public_flag overwrite f = Inr (r, c1)"
    and ent: "entry_of h source_dir destination_prefix f r"
    by blast
  from Cons.prems have "\<forall>f \<in> set files. take (length source_dir) f = source_dir" by simp
  from Cons.IH [OF this, of "acc @ [r]" c1] obtain rs c' where
    "upload_loop h bucket_name source_dir destination_prefix content_type metadata
       make_public_flag overwrite files (acc @ [r]) c1 = (Inr ((acc @ [r]) @ rs), c')"
    and "list_all2 (entry_of h source_dir destination_prefix) files rs"
    by blast
  with one ent show ?case
    by (intro exI [of _ "r # rs"] exI [of _ c']) simp
qed

lemma upload_loop_append:
  "upload_loop h bucket_name source_dir destination_prefix content_type metadata
     make_public_flag overwrite (xs @ ys) acc c
   = (case upload_loop h bucket_name source_dir destination_prefix content_type metadata
             make_public_flag overwrite xs acc c of
        (Inl e, c1) \<Rightarrow> (Inl e, c1)
      | (Inr r1, c1) \<Rightarrow>
          upload_loop h bucket_name source_dir destination_prefix content_type metadata
            make_public_flag overwrite ys r1 c1)"
  by (induction xs arbitrary: acc c) (auto split: sum.splits prod.splits)

lemma upload_loop_nth:
  assumes below: "\<forall>f \<in> set files. take (length source_dir) f = source_dir"
    and i: "i < length files"
    and loop: "upload_loop h bucket_name source_dir destination_prefix content_type metadata
                 make_public_flag overwrite files [] c = (Inr results, c')"
  shows "results ! i =
           (case fst (upload_file h
                   (snd (upload_loop h bucket_name source_dir destination_prefix content_type
                           metadata make_public_flag overwrite (take i files) [] c))
                   bucket_name (locate h (str_abs h (files ! i)))
                   (Some (destination_for h destination_prefix
                            (drop (length source_dir) (files ! i))))
                   content_type metadata make_public_flag overwrite) of
              Inr result \<Rightarrow> result
            | Inl e \<Rightarrow> Error (str_abs h (files ! i)) (message e))"
proof -
  let ?loop = "upload_loop h bucket_name source_dir destination_prefix content_type metadata
                 make_public_flag overwrite"
  have split: "files = take i files @ files ! i # drop (Suc i) files"
    using i by (simp add: id_take_nth_drop)
  have b1: "\<forall>f \<in> set (take i files). take (length source_dir) f = source_dir"
    using below by (auto dest: in_set_takeD)
  have b2: "take (length source_dir) (files ! i) = source_dir"
    using below i by simp
  have b3: "\<forall>f \<in> set (drop (Suc i) files). take (length source_dir) f = source_dir"
    using below by (auto dest: in_set_dropD)
  from upload_loop_entries [OF b1, of h bucket_name destination_prefix content_type metadata
      make_public_flag overwrite "[]" c]
  obtain r1 c1 where l1: "?loop (take i files) [] c = (Inr r1, c1)"
    and n1: "length r1 = i"
    using i by (auto dest: list_all2_lengthD)
  from upload_one_entry [OF b2, of h c1 bucket_name destination_prefix content_type metadata
      make_public_flag overwrite]
  obtain r c2 where one: "upload_one h c1 bucket_name source_dir destination_prefix
      content_type metadata make_public_flag overwrite (files ! i) = Inr (r, c2)"
    and r: "r = (case fst (upload_file h c1 bucket_name
                   (locate h (str_abs h (files ! i)))
                   (Some (destination_for h destination_prefix
                            (drop (length source_dir) (files ! i))))
                   content_type metadata make_public_flag overwrite) of
                   Inr result \<Rightarrow> result
                 | Inl e \<Rightarrow> Error (str_abs h (files ! i)) (message e))"
    by blast
  from upload_loop_entries [OF b3, of h bucket_name destination_prefix content_type metadata
      make_public_flag overwrite "r1 @ [r]" c2]
  obtain rs c3 where l3: "?loop (drop (Suc i) files) (r1 @ [r]) c2 = (Inr ((r1 @ [r]) @ rs), c3)"
    by blast
  have "?loop files [] c = ?loop (take i files @ files ! i # drop (Suc i) files) [] c"
    using split by simp
  also have "\<dots> = (Inr ((r1 @ [r]) @ rs), c3)"
    using l1 one l3 by (simp add: upload_loop_append)
  finally have "results = (r1 @ [r]) @ rs"
    using loop by simp
  then have "results ! i = r"
    using n1 by (simp add: nth_append)
  with r l1 show ?thesis by simp
qed

lemma upload_directory_loop:
  assumes "is_dir h source_dir" and "discover h source_dir pattern recursive = Inr files"
  shows "upload_directory h c bucket_name source_dir destination_prefix pattern recursive
           content_type metadata make_public_flag overwrite
         = upload_loop h bucket_name source_dir destination_prefix content_type metadata
             make_public_flag overwrite files [] c"
  using assms by (auto simp: upload_directory_def is_dir_lookup)

section \<open>Directory upload\<close>

text \<open>
  C1. Let the source directory exist and discovery return \<open>files\<close>. Then
  \<^verbatim>\<open>upload_directory\<close> returns a batch (it raises nothing) with one entry for each
  file, and for each position \<open>i\<close>: if \<^verbatim>\<open>upload_file\<close> on the \<open>i\<close>-th file (on its
  path as the host resolves it), in the state that the uploads of the files before it
  have left, raises \<open>e\<close>, the \<open>i\<close>-th entry is the error entry with the path of that file
  as it was discovered and the text of \<open>e\<close>; the files after it are
  still processed, as the length of the batch shows. The single-file operation itself
  hands each exception of the Storage Client to its caller: the one of the existence
  query, the one of the write, and the one of \<^verbatim>\<open>make_public\<close>.
\<close>

theorem failure_isolation:
  fixes h :: host and c :: cloud and source_path :: path
    and bucket_name data :: string and destination_blob_name content_type :: "string option"
    and metadata :: "(string \<times> string) list option" and overwrite :: bool
  assumes "is_dir h source_dir" and "discover h source_dir pattern recursive = Inr files"
  defines "dest \<equiv> blob_name source_path destination_blob_name"
    and "ctype \<equiv> resolve_content_type h source_path content_type"
  defines "cw \<equiv> (if overwrite then c else snd (blob_exists c bucket_name dest))"
  defines "written \<equiv> upload_from_filename cw bucket_name dest (str_abs h source_path) data
                       ctype (blob_metadata_of metadata) (if overwrite then None else Some 0)"
  shows
    "(\<exists>results c'.
        upload_directory h c bucket_name source_dir destination_prefix pattern recursive
          content_type metadata make_public_flag overwrite = (Inr results, c')
        \<and> length results = length files
        \<and> (\<forall>i e. i < length files
              \<and> fst (upload_file h
                      (snd (upload_loop h bucket_name source_dir destination_prefix
                              content_type metadata make_public_flag overwrite
                              (take i files) [] c))
                      bucket_name (locate h (str_abs h (files ! i)))
                      (Some (destination_for h destination_prefix
                               (drop (length source_dir) (files ! i))))
                      content_type metadata make_public_flag overwrite) = Inl e
              \<longrightarrow> results ! i = Error (str_abs h (files ! i)) (message e)))
     \<and> (lookup (root h) source_path = Some (File data) \<longrightarrow>
          (\<not> overwrite \<and> fst (blob_exists c bucket_name dest) = Inl e' \<longrightarrow>
             upload_file h c bucket_name source_path destination_blob_name content_type
               metadata make_public_flag overwrite
             = (Inl e', snd (blob_exists c bucket_name dest)))
        \<and> ((overwrite \<or> fst (blob_exists c bucket_name dest) = Inr False)
             \<and> fst written = Inl e' \<longrightarrow>
             upload_file h c bucket_name source_path destination_blob_name content_type
               metadata make_public_flag overwrite
             = (Inl e', snd written))
        \<and> ((overwrite \<or> fst (blob_exists c bucket_name dest) = Inr False)
             \<and> fst written = Inr () \<and> make_public_flag
             \<and> fst (make_public (snd written) bucket_name dest) = Inl e' \<longrightarrow>
             upload_file h c bucket_name source_path destination_blob_name content_type
               metadata make_public_flag overwrite
             = (Inl e', snd (make_public (snd written) bucket_name dest))))"
proof (intro conjI)
  let ?loop = "upload_loop h bucket_name source_dir destination_prefix content_type metadata
                 make_public_flag overwrite"
  have below: "\<forall>f \<in> set files. take (length source_dir) f = source_dir"
    using discover_below [OF assms(2)] by blast
  from upload_loop_entries [OF below, of h bucket_name destination_prefix content_type
      metadata make_public_flag overwrite "[]" c]
  obtain results c' where loop: "?loop files [] c = (Inr results, c')"
    and ents: "list_all2 (entry_of h source_dir destination_prefix) files results"
    by auto
  have dir: "upload_directory h c bucket_name source_dir destination_prefix pattern recursive
               content_type metadata make_public_flag overwrite = (Inr results, c')"
    using upload_directory_loop [OF assms(1,2)] loop by simp
  have len: "length results = length files"
    using ents by (simp add: list_all2_lengthD)
  have nth: "results ! i = Error (str_abs h (files ! i)) (message e)"
    if "i < length files"
      and "fst (upload_file h (snd (?loop (take i files) [] c)) bucket_name
                  (locate h (str_abs h (files ! i)))
                  (Some (destination_for h destination_prefix
                           (drop (length source_dir) (files ! i))))
                  content_type metadata make_public_flag overwrite) = Inl e"
    for i e
    using upload_loop_nth [OF below that(1) loop] that(2) by simp
  show "\<exists>results c'.
        upload_directory h c bucket_name source_dir destination_prefix pattern recursive
          content_type metadata make_public_flag overwrite = (Inr results, c')
        \<and> length results = length files
        \<and> (\<forall>i e. i < length files
              \<and> fst (upload_file h
                      (snd (upload_loop h bucket_name source_dir destination_prefix
                              content_type metadata make_public_flag overwrite
                              (take i files) [] c))
                      bucket_name (locate h (str_abs h (files ! i)))
                      (Some (destination_for h destination_prefix
                               (drop (length source_dir) (files ! i))))
                      content_type metadata make_public_flag overwrite) = Inl e
              \<longrightarrow> results ! i = Error (str_abs h (files ! i)) (message e))"
    using dir len nth by blast
next
  show "lookup (root h) source_path = Some (File data) \<longrightarrow>
          (\<not> overwrite \<and> fst (blob_exists c bucket_name dest) = Inl e' \<longrightarrow>
             upload_file h c bucket_name source_path destination_blob_name content_type
               metadata make_public_flag overwrite
             = (Inl e', snd (blob_exists c bucket_name dest)))
        \<and> ((overwrite \<or> fst (blob_exists c bucket_name dest) = Inr False)
             \<and> fst written = Inl e' \<longrightarrow>
             upload_file h c bucket_name source_path destination_blob_name content_type
               metadata make_public_flag overwrite
             = (Inl e', snd written))
        \<and> ((overwrite \<or> fst (blob_exists c bucket_name dest) = Inr False)
             \<and> fst written = Inr () \<and> make_public_flag
             \<and> fst (make_public (snd written) bucket_name dest) = Inl e' \<longrightarrow>
             upload_file h c bucket_name source_path destination_blob_name content_type
               metadata make_public_flag overwrite
             = (Inl e', snd (make_public (snd written) bucket_name dest)))"
    unfolding written_def cw_def dest_def ctype_def
    by (auto simp: upload_file_def do_upload_def Let_def
        split: prod.splits sum.splits)
qed
theorem failure_isolation_witness:
  "is_dir demo_host [''a'']
   \<and> discover demo_host [''a''] ''*'' True
       = Inr [[''a'', ''x.pdf''], [''a'', ''x.json''], [''a'', ''b'', ''c.txt'']]
   \<and> fst (upload_file demo_host
            (snd (upload_loop demo_host ''docs'' [''a''] [] None None True False
                    [[''a'', ''x.pdf'']] [] flaky_cloud))
            ''docs'' [''a'', ''x.json''] (Some ''x.json'') None None True False)
       = Inl (GoogleCloudError ''503 Service Unavailable'')
   \<and> (\<exists>results c'.
         upload_directory demo_host flaky_cloud ''docs'' [''a''] [] ''*'' True None None True
           False = (Inr results, c')
         \<and> length results = 3
         \<and> results ! 1 = Error ''/a/x.json'' ''503 Service Unavailable'')
   \<and> fst (upload_directory demo_host flaky_cloud ''docs'' [''a''] [] ''*'' True None None
            True False)
       = Inr [Success ''/a/x.pdf'' ''x.pdf'' ''docs'' 4 ''application/pdf'' ''gs://docs/x.pdf''
                (Some ''https://storage.googleapis.com/docs/x.pdf'') ''2024-05-01T12:00:00'',
              Error ''/a/x.json'' ''503 Service Unavailable'',
              Success ''/a/b/c.txt'' ''b/c.txt'' ''docs'' 5 ''text/plain''
                ''gs://docs/b/c.txt''
                (Some ''https://storage.googleapis.com/docs/b/c.txt'')
                ''2024-05-01T12:00:00'']
   \<and> lookup (root demo_host) [''a'', ''x.json''] = Some (File ''{}'')
   \<and> fst (blob_exists flaky_cloud ''docs'' ''x.json'') = Inr False
   \<and> fst (upload_file demo_host flaky_cloud ''docs'' [''a'', ''x.json''] None None None True
            False)
       = Inl (GoogleCloudError ''503 Service Unavailable'')"
proof -
  let ?files = "[[''a'', ''x.pdf''], [''a'', ''x.json''], [''a'', ''b'', ''c.txt'']]"
  let ?e = "GoogleCloudError ''503 Service Unavailable''"
  have h1: "is_dir demo_host [''a'']"
    by code_simp
  have h2: "discover demo_host [''a''] ''*'' True = Inr ?files"
    by code_simp
  have h3: "fst (upload_file demo_host
              (snd (upload_loop demo_host ''docs'' [''a''] [] None None True False
                      [[''a'', ''x.pdf'']] [] flaky_cloud))
              ''docs'' [''a'', ''x.json''] (Some ''x.json'') None None True False) = Inl ?e"
    by code_simp
  have d: "destination_for demo_host [] [''x.json''] = ''x.json''"
    by code_simp
  have s: "str_abs demo_host [''a'', ''x.json''] = ''/a/x.json''"
    by code_simp
  have full: "fst (upload_directory demo_host flaky_cloud ''docs'' [''a''] [] ''*'' True None
                None True False)
       = Inr [Success ''/a/x.pdf'' ''x.pdf'' ''docs'' 4 ''application/pdf'' ''gs://docs/x.pdf''
                (Some ''https://storage.googleapis.com/docs/x.pdf'') ''2024-05-01T12:00:00'',
              Error ''/a/x.json'' ''503 Service Unavailable'',
              Success ''/a/b/c.txt'' ''b/c.txt'' ''docs'' 5 ''text/plain''
                ''gs://docs/b/c.txt''
                (Some ''https://storage.googleapis.com/docs/b/c.txt'')
                ''2024-05-01T12:00:00'']"
    by code_simp
  have f: "lookup (root demo_host) [''a'', ''x.json''] = Some (File ''{}'')"
    by code_simp
  have x: "fst (blob_exists flaky_cloud ''docs'' ''x.json'') = Inr False"
    by code_simp
  have n: "blob_name [''a'', ''x.json''] None = ''x.json''"
    by code_simp
  have w: "fst (upload_from_filename (snd (blob_exists flaky_cloud ''docs'' ''x.json'')) ''docs''
                  ''x.json'' (str_abs demo_host [''a'', ''x.json'']) ''{}''
                  (resolve_content_type demo_host [''a'', ''x.json''] None)
                  (blob_metadata_of None) (Some 0)) = Inl ?e"
    by code_simp
  note t = failure_isolation [OF h1 h2, where c = flaky_cloud and bucket_name = "''docs''"
      and destination_prefix = "[]" and content_type = None and metadata = None
      and make_public_flag = True and overwrite = False
      and source_path = "[''a'', ''x.json'']" and data = "''{}''"
      and destination_blob_name = None and e' = ?e]
  from t obtain results c' where
    r1: "upload_directory demo_host flaky_cloud ''docs'' [''a''] [] ''*'' True None None True
           False = (Inr results, c')"
    and r2: "length results = length ?files"
    and r3: "\<forall>i e. i < length ?files
              \<and> fst (upload_file demo_host
                      (snd (upload_loop demo_host ''docs'' [''a''] [] None None True False
                              (take i ?files) [] flaky_cloud))
                      ''docs'' (locate demo_host (str_abs demo_host (?files ! i)))
                      (Some (destination_for demo_host [] (drop (length [''a'']) (?files ! i))))
                      None None True False) = Inl e
              \<longrightarrow> results ! i = Error (str_abs demo_host (?files ! i)) (message e)"
    by blast
  have loc: "locate demo_host ''/a/x.json'' = [''a'', ''x.json'']"
    by code_simp
  from r3 [rule_format, of 1 ?e] h3
  have "results ! 1 = Error ''/a/x.json'' ''503 Service Unavailable''"
    by (simp add: d s loc)
  with r1 r2 have batch: "\<exists>results c'.
         upload_directory demo_host flaky_cloud ''docs'' [''a''] [] ''*'' True None None True
           False = (Inr results, c')
         \<and> length results = 3
         \<and> results ! 1 = Error ''/a/x.json'' ''503 Service Unavailable''"
    by simp
  from t f x w
  have single: "fst (upload_file demo_host flaky_cloud ''docs'' [''a'', ''x.json'']
      None None None True False) = Inl ?e"
    by (simp add: n)
  from h1 h2 h3 batch full f x single show ?thesis
    by simp
qed

text \<open>
  C2. Let the source directory exist and discovery return \<open>files\<close>. Then
  \<^verbatim>\<open>upload_directory\<close> returns a batch whose entries stand, position by position, for
  the discovered files in discovery order (a success with the file's resolved path and
  derived destination, a skip with the derived destination, or an error with the file's
  path as discovered):
  as many entries as files, none dropped. When no file was discovered the batch is empty,
  nothing is raised and the Storage Client has not been called.
\<close>

theorem one_entry_per_discovered_file:
  assumes "is_dir h source_dir" and "discover h source_dir pattern recursive = Inr files"
  shows "\<exists>results c'.
           upload_directory h c bucket_name source_dir destination_prefix pattern recursive
             content_type metadata make_public_flag overwrite = (Inr results, c')
           \<and> list_all2 (entry_of h source_dir destination_prefix) files results
           \<and> length results = length files
           \<and> (files = [] \<longrightarrow> results = [] \<and> c' = c)"
proof -
  have below: "\<forall>f \<in> set files. take (length source_dir) f = source_dir"
    using discover_below [OF assms(2)] by blast
  from upload_loop_entries [OF below, of h bucket_name destination_prefix content_type
      metadata make_public_flag overwrite "[]" c]
  obtain results c' where
    loop: "upload_loop h bucket_name source_dir destination_prefix content_type metadata
             make_public_flag overwrite files [] c = (Inr results, c')"
    and ents: "list_all2 (entry_of h source_dir destination_prefix) files results"
    by auto
  have "upload_directory h c bucket_name source_dir destination_prefix pattern recursive
          content_type metadata make_public_flag overwrite = (Inr results, c')"
    using upload_directory_loop [OF assms] loop by simp
  moreover have "length results = length files"
    using ents by (simp add: list_all2_lengthD)
  moreover have "files = [] \<longrightarrow> results = [] \<and> c' = c"
    using loop by auto
  ultimately show ?thesis
    using ents by blast
qed

theorem one_entry_per_discovered_file_witness:
  "is_dir demo_host [''a'']
   \<and> discover demo_host [''a''] ''*'' True
       = Inr [[''a'', ''x.pdf''], [''a'', ''x.json''], [''a'', ''b'', ''c.txt'']]
   \<and> (\<exists>results c'.
         upload_directory demo_host stocked_cloud ''docs'' [''a''] [] ''*'' True None None
           False False = (Inr results, c')
         \<and> list_all2 (entry_of demo_host [''a''] [])
              [[''a'', ''x.pdf''], [''a'', ''x.json''], [''a'', ''b'', ''c.txt'']] results
         \<and> length results = 3)
   \<and> fst (upload_directory demo_host stocked_cloud ''docs'' [''a''] [] ''*'' True None None
            False False)
       = Inr [Skipped ''blob_exists'' ''x.pdf'',
              Success ''/a/x.json'' ''x.json'' ''docs'' 2 ''application/json''
                ''gs://docs/x.json'' None ''2024-05-01T12:00:00'',
              Success ''/a/b/c.txt'' ''b/c.txt'' ''docs'' 5 ''text/plain''
                ''gs://docs/b/c.txt'' None ''2024-05-01T12:00:00'']
   \<and> discover demo_host [''a''] ''*.docx'' True = Inr []
   \<and> upload_directory demo_host stocked_cloud ''docs'' [''a''] [] ''*.docx'' True None None
         False False = (Inr [], stocked_cloud)
   \<and> discover demo_host [''links''] ''*'' True
       = Inr [[''links'', ''f.txt''], [''links'', ''r.txt'']]
   \<and> fst (upload_directory demo_host stocked_cloud ''docs'' [''links''] ''pre'' ''*'' True
            None None False False)
       = Inr [Success ''/a/b/c.txt'' ''pre/f.txt'' ''docs'' 5 ''text/plain''
                ''gs://docs/pre/f.txt'' None ''2024-05-01T12:00:00'',
              Success ''/links/r.txt'' ''pre/r.txt'' ''docs'' 1 ''text/plain''
                ''gs://docs/pre/r.txt'' None ''2024-05-01T12:00:00'']"
proof -
  let ?files = "[[''a'', ''x.pdf''], [''a'', ''x.json''], [''a'', ''b'', ''c.txt'']]"
  have h1: "is_dir demo_host [''a'']"
    by code_simp
  have h2: "discover demo_host [''a''] ''*'' True = Inr ?files"
    by code_simp
  have h3: "discover demo_host [''a''] ''*.docx'' True = Inr []"
    by code_simp
  have full: "fst (upload_directory demo_host stocked_cloud ''docs'' [''a''] [] ''*'' True None
                None False False)
       = Inr [Skipped ''blob_exists'' ''x.pdf'',
              Success ''/a/x.json'' ''x.json'' ''docs'' 2 ''application/json''
                ''gs://docs/x.json'' None ''2024-05-01T12:00:00'',
              Success ''/a/b/c.txt'' ''b/c.txt'' ''docs'' 5 ''text/plain''
                ''gs://docs/b/c.txt'' None ''2024-05-01T12:00:00'']"
    by code_simp
  from one_entry_per_discovered_file [OF h1 h2, of stocked_cloud "''docs''" "[]" None None
      False False]
  have batch: "\<exists>results c'.
         upload_directory demo_host stocked_cloud ''docs'' [''a''] [] ''*'' True None None
           False False = (Inr results, c')
         \<and> list_all2 (entry_of demo_host [''a''] []) ?files results
         \<and> length results = 3"
    by auto
  from one_entry_per_discovered_file [OF h1 h3, of stocked_cloud "''docs''" "[]" None None
      False False]
  have empty: "upload_directory demo_host stocked_cloud ''docs'' [''a''] [] ''*.docx'' True
      None None False False = (Inr [], stocked_cloud)"
    by auto
  have links: "discover demo_host [''links''] ''*'' True
       = Inr [[''links'', ''f.txt''], [''links'', ''r.txt'']]"
    and linked: "fst (upload_directory demo_host stocked_cloud ''docs'' [''links''] ''pre'' ''*''
            True None None False False)
       = Inr [Success ''/a/b/c.txt'' ''pre/f.txt'' ''docs'' 5 ''text/plain''
                ''gs://docs/pre/f.txt'' None ''2024-05-01T12:00:00'',
              Success ''/links/r.txt'' ''pre/r.txt'' ''docs'' 1 ''text/plain''
                ''gs://docs/pre/r.txt'' None ''2024-05-01T12:00:00'']"
    by code_simp+
  from h1 h2 h3 full batch empty links linked show ?thesis
    by simp
qed

section \<open>The write and its precondition\<close>

text \<open>
  C4. For \<^verbatim>\<open>upload_file\<close> on a regular file, the calls that reach the Storage Client
  are these. With \<^verbatim>\<open>overwrite\<close> true: the write with no generation precondition,
  followed at most by \<^verbatim>\<open>make_public\<close>. With \<^verbatim>\<open>overwrite\<close> false and a negative
  answer to the existence query: the query, then the write with
  \<^verbatim>\<open>if_generation_match = 0\<close>, followed at most by \<^verbatim>\<open>make_public\<close>. So when another
  writer has created the blob (a live object, of positive generation) between the query
  and the write, \<^verbatim>\<open>upload_file\<close> raises and the other writer's object is still in place.
\<close>

theorem write_precondition:
  fixes h :: host and c :: cloud and source_path :: path
    and bucket_name data :: string and destination_blob_name content_type :: "string option"
    and metadata :: "(string \<times> string) list option" and overwrite make_public_flag :: bool
  assumes "lookup (root h) source_path = Some (File data)"
  defines "dest \<equiv> blob_name source_path destination_blob_name"
  defines "write \<equiv> UploadFromFilename bucket_name dest (str_abs h source_path)
                     (resolve_content_type h source_path content_type)
                     (blob_metadata_of metadata)"
    and "after \<equiv> snd (upload_file h c bucket_name source_path destination_blob_name
                         content_type metadata make_public_flag overwrite)"
  shows
    "(overwrite \<longrightarrow>
        calls after = calls c @ [write None]
        \<or> calls after = calls c @ [write None, MakePublic bucket_name dest])
     \<and> (\<not> overwrite \<and> fst (blob_exists c bucket_name dest) = Inr False \<longrightarrow>
        calls after = calls c @ [Exists bucket_name dest, write (Some 0)]
        \<or> calls after
            = calls c @ [Exists bucket_name dest, write (Some 0), MakePublic bucket_name dest])
     \<and> (\<not> overwrite \<and> fst (blob_exists c bucket_name dest) = Inr False
        \<and> objects (arrive (snd (blob_exists c bucket_name dest)) (write (Some 0)))
             (bucket_name, dest) = Some x
        \<and> 0 < generation x \<longrightarrow>
        (\<exists>e. fst (upload_file h c bucket_name source_path destination_blob_name
                content_type metadata make_public_flag overwrite) = Inl e)
        \<and> objects after (bucket_name, dest) = Some x)"
  using assms(1) unfolding write_def after_def dest_def
  by (auto simp: upload_file_def do_upload_def Let_def blob_exists_def
      upload_from_filename_def make_public_def generation_of_def
      split: option.splits if_splits)

theorem write_precondition_witness:
  "lookup (root demo_host) [''a'', ''x.pdf''] = Some (File ''%PDF'')
   \<and> calls (snd (upload_file demo_host quiet_cloud ''docs'' [''a'', ''x.pdf''] None None None
                   False True))
       = [UploadFromFilename ''docs'' ''x.pdf'' ''/a/x.pdf'' ''application/pdf'' None None]
   \<and> fst (blob_exists quiet_cloud ''docs'' ''x.pdf'') = Inr False
   \<and> calls (snd (upload_file demo_host quiet_cloud ''docs'' [''a'', ''x.pdf''] None None None
                   False False))
       = [Exists ''docs'' ''x.pdf'',
          UploadFromFilename ''docs'' ''x.pdf'' ''/a/x.pdf'' ''application/pdf'' None (Some 0)]
   \<and> fst (blob_exists racing_cloud ''docs'' ''x.pdf'') = Inr False
   \<and> objects (arrive (snd (blob_exists racing_cloud ''docs'' ''x.pdf''))
                (UploadFromFilename ''docs'' ''x.pdf'' ''/a/x.pdf'' ''application/pdf'' None
                   (Some 0)))
        (''docs'', ''x.pdf'') = Some other_blob
   \<and> 0 < generation other_blob
   \<and> fst (upload_file demo_host racing_cloud ''docs'' [''a'', ''x.pdf''] None None None False
            False) = Inl (GoogleCloudError ''412 conditionNotMet'')
   \<and> objects (snd (upload_file demo_host racing_cloud ''docs'' [''a'', ''x.pdf''] None None
                     None False False)) (''docs'', ''x.pdf'') = Some other_blob"
proof -
  have f: "lookup (root demo_host) [''a'', ''x.pdf''] = Some (File ''%PDF'')"
    by code_simp
  have n: "blob_name [''a'', ''x.pdf''] None = ''x.pdf''"
    and s: "str_abs demo_host [''a'', ''x.pdf''] = ''/a/x.pdf''"
    and t: "resolve_content_type demo_host [''a'', ''x.pdf''] None = ''application/pdf''"
    and m: "blob_metadata_of None = None"
    and k: "calls quiet_cloud = []"
    by code_simp+
  have q: "fst (blob_exists quiet_cloud ''docs'' ''x.pdf'') = Inr False"
    by code_simp
  have r1: "fst (blob_exists racing_cloud ''docs'' ''x.pdf'') = Inr False"
    by code_simp
  have r2: "objects (arrive (snd (blob_exists racing_cloud ''docs'' ''x.pdf''))
                (UploadFromFilename ''docs'' ''x.pdf'' ''/a/x.pdf'' ''application/pdf'' None
                   (Some 0)))
        (''docs'', ''x.pdf'') = Some other_blob"
    by (simp add: demo_client)
  have r3: "0 < generation other_blob"
    by (simp add: other_blob_def)
  have r4: "fst (upload_file demo_host racing_cloud ''docs'' [''a'', ''x.pdf''] None None None
      False False) = Inl (GoogleCloudError ''412 conditionNotMet'')"
    by (simp add: demo_upload demo_client demo_fs)
  have nomp: "calls (snd (upload_file demo_host quiet_cloud ''docs'' [''a'', ''x.pdf''] None
      None None False ow)) \<noteq> cs @ [MakePublic ''docs'' ''x.pdf'']" for ow cs
    by (simp add: demo_upload demo_client demo_fs)
  from write_precondition [OF f, where c = quiet_cloud and bucket_name = "''docs''"
      and destination_blob_name = None and content_type = None and metadata = None
      and make_public_flag = False and overwrite = True]
  have w1: "calls (snd (upload_file demo_host quiet_cloud ''docs'' [''a'', ''x.pdf''] None None
      None False True))
       = [UploadFromFilename ''docs'' ''x.pdf'' ''/a/x.pdf'' ''application/pdf'' None None]"
    using nomp [of True "[UploadFromFilename ''docs'' ''x.pdf'' ''/a/x.pdf''
      ''application/pdf'' None None]"]
    by (simp add: n s t m k)
  from write_precondition [OF f, where c = quiet_cloud and bucket_name = "''docs''"
      and destination_blob_name = None and content_type = None and metadata = None
      and make_public_flag = False and overwrite = False] q
  have w2: "calls (snd (upload_file demo_host quiet_cloud ''docs'' [''a'', ''x.pdf''] None None
      None False False))
       = [Exists ''docs'' ''x.pdf'',
          UploadFromFilename ''docs'' ''x.pdf'' ''/a/x.pdf'' ''application/pdf'' None (Some 0)]"
    using nomp [of False "[Exists ''docs'' ''x.pdf'', UploadFromFilename ''docs'' ''x.pdf''
      ''/a/x.pdf'' ''application/pdf'' None (Some 0)]"]
    by (simp add: n s t m k)
  from write_precondition [OF f, where c = racing_cloud and bucket_name = "''docs''"
      and destination_blob_name = None and content_type = None and metadata = None
      and make_public_flag = False and overwrite = False and x = other_blob] r1 r2 r3
  have w3: "objects (snd (upload_file demo_host racing_cloud ''docs'' [''a'', ''x.pdf''] None
      None None False False)) (''docs'', ''x.pdf'') = Some other_blob"
    by (simp add: n s t m)
  from f w1 q w2 r1 r2 r3 r4 w3 show ?thesis
    by simp
qed

section \<open>Destination names\<close>







section \<open>The exit status\<close>

lemma handled_one [simp]: "handled e = 1"
  by (cases e) simp_all

lemma upload_file_status:
  "upload_file h c bucket_name source_path destination_blob_name content_type metadata
     make_public_flag overwrite = (Inr r, c1) \<Longrightarrow> status r \<noteq> ''error''"
  by (drule upload_file_never_error_entry) auto

lemma main_not_built:
  "gcs_uploader_init h (arg_credentials a) = Inl e \<Longrightarrow> main h c a = (1, c)"
  by (simp add: main_def)

lemma main_list_buckets:
  "gcs_uploader_init h (arg_credentials a) = Inr () \<Longrightarrow> arg_list_buckets a \<Longrightarrow>
   fst (main h c a) = (case fst (list_buckets c) of Inl e \<Rightarrow> 1 | Inr bs \<Rightarrow> 0)"
  by (cases "list_buckets c") (simp add: main_def split: sum.splits)

lemma main_no_bucket:
  "gcs_uploader_init h (arg_credentials a) = Inr () \<Longrightarrow> \<not> arg_list_buckets a \<Longrightarrow>
   arg_bucket_name a = [] \<Longrightarrow> main h c a = (2, c)"
  by (simp add: main_def parser_error_def)

lemma main_list:
  "gcs_uploader_init h (arg_credentials a) = Inr () \<Longrightarrow> \<not> arg_list_buckets a \<Longrightarrow>
   arg_bucket_name a \<noteq> [] \<Longrightarrow> arg_list a \<Longrightarrow>
   fst (main h c a)
   = (case fst (list_blobs c (arg_bucket_name a) (arg_prefix a) 100) of
        Inl e \<Rightarrow> 1 | Inr blobs \<Rightarrow> 0)"
  by (cases "list_blobs c (arg_bucket_name a) (arg_prefix a) 100")
    (simp add: main_def split: sum.splits)

lemma main_no_source:
  "gcs_uploader_init h (arg_credentials a) = Inr () \<Longrightarrow> \<not> arg_list_buckets a \<Longrightarrow>
   arg_bucket_name a \<noteq> [] \<Longrightarrow> \<not> arg_list a \<Longrightarrow>
   arg_source a = None \<or> arg_source a = Some [] \<Longrightarrow> main h c a = (2, c)"
  by (auto simp: main_def parser_error_def)

lemma main_directory:
  assumes "gcs_uploader_init h (arg_credentials a) = Inr ()" and "\<not> arg_list_buckets a"
    and "arg_bucket_name a \<noteq> []" and "\<not> arg_list a" and "arg_source a = Some s"
    and "s \<noteq> []" and "is_dir h (locate h s) \<or> arg_recursive a"
  shows "main h c a
         = (case upload_directory h c (arg_bucket_name a) (locate h s)
                   (case arg_destination a of None \<Rightarrow> [] | Some d \<Rightarrow> d)
                   (arg_pattern a) (arg_recursive a) (arg_content_type a) None
                   (arg_public a) (\<not> arg_no_overwrite a) of
              (Inl e, c1) \<Rightarrow> (1, c1)
            | (Inr results, c1) \<Rightarrow>
                (if list_ex (\<lambda>r. status r = ''error'') results then (1, c1) else (0, c1)))"
  using assms by (simp add: main_def Let_def split: prod.splits sum.splits)

lemma main_file:
  assumes "gcs_uploader_init h (arg_credentials a) = Inr ()" and "\<not> arg_list_buckets a"
    and "arg_bucket_name a \<noteq> []" and "\<not> arg_list a" and "arg_source a = Some s"
    and "s \<noteq> []" and "\<not> is_dir h (locate h s)" and "\<not> arg_recursive a"
  shows "main h c a
         = (case upload_file h c (arg_bucket_name a) (locate h s) (arg_destination a)
                   (arg_content_type a) None (arg_public a) (\<not> arg_no_overwrite a) of
              (Inl e, c1) \<Rightarrow> (1, c1)
            | (Inr r, c1) \<Rightarrow> (0, c1))"
proof -
  obtain x c1 where u: "upload_file h c (arg_bucket_name a) (locate h s) (arg_destination a)
      (arg_content_type a) None (arg_public a) (\<not> arg_no_overwrite a) = (x, c1)"
    by (cases "upload_file h c (arg_bucket_name a) (locate h s) (arg_destination a)
      (arg_content_type a) None (arg_public a) (\<not> arg_no_overwrite a)")
  show ?thesis
  proof (cases x)
    case (Inl e)
    with u assms show ?thesis by (simp add: main_def Let_def)
  next
    case (Inr r)
    with u have "status r \<noteq> ''error''" by (auto dest: upload_file_status)
    with Inr u assms show ?thesis by (simp add: main_def Let_def)
  qed
qed

lemma main_directory_status:
  assumes "gcs_uploader_init h (arg_credentials a) = Inr ()" and "\<not> arg_list_buckets a"
    and "arg_bucket_name a \<noteq> []" and "\<not> arg_list a" and "arg_source a = Some s"
    and "s \<noteq> []" and "is_dir h (locate h s) \<or> arg_recursive a"
  shows "fst (main h c a)
         = (case fst (upload_directory h c (arg_bucket_name a) (locate h s)
                        (case arg_destination a of None \<Rightarrow> [] | Some d \<Rightarrow> d)
                        (arg_pattern a) (arg_recursive a) (arg_content_type a) None
                        (arg_public a) (\<not> arg_no_overwrite a)) of
              Inl e \<Rightarrow> 1
            | Inr results \<Rightarrow> if list_ex (\<lambda>r. status r = ''error'') results then 1 else 0)"
  unfolding main_directory [OF assms]
  by (simp split: prod.splits sum.splits)

lemma main_file_status:
  assumes "gcs_uploader_init h (arg_credentials a) = Inr ()" and "\<not> arg_list_buckets a"
    and "arg_bucket_name a \<noteq> []" and "\<not> arg_list a" and "arg_source a = Some s"
    and "s \<noteq> []" and "\<not> is_dir h (locate h s)" and "\<not> arg_recursive a"
  shows "fst (main h c a)
         = (case fst (upload_file h c (arg_bucket_name a) (locate h s) (arg_destination a)
                        (arg_content_type a) None (arg_public a) (\<not> arg_no_overwrite a)) of
              Inl e \<Rightarrow> 1 | Inr r \<Rightarrow> 0)"
  unfolding main_file [OF assms]
  by (simp split: prod.splits sum.splits)

lemma main_zero_or_one:
  assumes "\<not> (gcs_uploader_init h (arg_credentials a) = Inr () \<and> \<not> arg_list_buckets a
             \<and> (arg_bucket_name a = []
                 \<or> (\<not> arg_list a \<and> (arg_source a = None \<or> arg_source a = Some []))))"
  shows "fst (main h c a) = 0 \<or> fst (main h c a) = 1"
proof (cases "gcs_uploader_init h (arg_credentials a)")
  case (Inl e)
  then show ?thesis by (simp add: main_not_built)
next
  case (Inr u)
  then have b: "gcs_uploader_init h (arg_credentials a) = Inr ()" by simp
  show ?thesis
  proof (cases "arg_list_buckets a")
    case True
    with b show ?thesis by (simp add: main_list_buckets split: sum.splits)
  next
    case nlb: False
    with b assms have bn: "arg_bucket_name a \<noteq> []" by auto
    show ?thesis
    proof (cases "arg_list a")
      case True
      with b nlb bn show ?thesis by (simp add: main_list split: sum.splits)
    next
      case nl: False
      with b nlb assms obtain s where s: "arg_source a = Some s" "s \<noteq> []"
        by (cases "arg_source a") auto
      show ?thesis
      proof (cases "is_dir h (locate h s) \<or> arg_recursive a")
        case True
        from main_directory_status [OF b nlb bn nl s True] show ?thesis
          by (simp split: sum.splits)
      next
        case False
        then have "\<not> is_dir h (locate h s)" "\<not> arg_recursive a" by auto
        from main_file_status [OF b nlb bn nl s this] show ?thesis
          by (simp split: sum.splits)
      qed
    qed
  qed
qed

text \<open>
  C9, as the code has it. A usage error (the uploader is built, no bucket listing is
  asked for, and the bucket name is empty or, outside a blob listing, the source is
  missing) ends the process with status 2; every other run ends with 0 or 1. The status
  is 1 when the uploader cannot be built, when a listing or an upload raises, and when a
  directory batch holds an error entry; it is 0 when a listing returns, when the
  single-file upload returns its entry, and when a directory batch holds no error entry.
\<close>

theorem exit_status:
  fixes h :: host and c :: cloud and a :: args
  defines "built \<equiv> gcs_uploader_init h (arg_credentials a) = Inr ()"
  defines "usage \<equiv> built \<and> \<not> arg_list_buckets a
             \<and> (arg_bucket_name a = []
                 \<or> (\<not> arg_list a \<and> (arg_source a = None \<or> arg_source a = Some [])))"
  defines "uploading s \<equiv> built \<and> \<not> arg_list_buckets a \<and> arg_bucket_name a \<noteq> []
             \<and> \<not> arg_list a \<and> arg_source a = Some s \<and> s \<noteq> []"
  shows
    "(usage \<longrightarrow> fst (main h c a) = 2)
     \<and> (\<not> usage \<longrightarrow> fst (main h c a) = 0 \<or> fst (main h c a) = 1)
     \<and> (\<not> built \<longrightarrow> fst (main h c a) = 1)
     \<and> (built \<and> arg_list_buckets a \<longrightarrow>
          fst (main h c a) = (case fst (list_buckets c) of Inl e \<Rightarrow> 1 | Inr bs \<Rightarrow> 0))
     \<and> (built \<and> \<not> arg_list_buckets a \<and> arg_bucket_name a \<noteq> [] \<and> arg_list a \<longrightarrow>
          fst (main h c a)
          = (case fst (list_blobs c (arg_bucket_name a) (arg_prefix a) 100) of
               Inl e \<Rightarrow> 1 | Inr blobs \<Rightarrow> 0))
     \<and> (uploading s \<and> (is_dir h (locate h s) \<or> arg_recursive a) \<longrightarrow>
          fst (main h c a)
          = (case fst (upload_directory h c (arg_bucket_name a) (locate h s)
                         (case arg_destination a of None \<Rightarrow> [] | Some d \<Rightarrow> d)
                         (arg_pattern a) (arg_recursive a) (arg_content_type a) None
                         (arg_public a) (\<not> arg_no_overwrite a)) of
               Inl e \<Rightarrow> 1
             | Inr results \<Rightarrow> if list_ex (\<lambda>r. status r = ''error'') results then 1 else 0))
     \<and> (uploading s \<and> \<not> is_dir h (locate h s) \<and> \<not> arg_recursive a \<longrightarrow>
          fst (main h c a)
          = (case fst (upload_file h c (arg_bucket_name a) (locate h s) (arg_destination a)
                         (arg_content_type a) None (arg_public a) (\<not> arg_no_overwrite a)) of
               Inl e \<Rightarrow> 1 | Inr r \<Rightarrow> 0))"
proof (intro conjI impI)
  assume usage
  then show "fst (main h c a) = 2"
    unfolding usage_def built_def
    by (cases "arg_bucket_name a = []") (auto simp: main_no_bucket main_no_source)
next
  assume "\<not> usage"
  then show "fst (main h c a) = 0 \<or> fst (main h c a) = 1"
    unfolding usage_def built_def by (rule main_zero_or_one)
next
  assume "\<not> built"
  then obtain e where "gcs_uploader_init h (arg_credentials a) = Inl e"
    unfolding built_def by (cases "gcs_uploader_init h (arg_credentials a)") auto
  then show "fst (main h c a) = 1"
    by (simp add: main_not_built)
next
  assume "built \<and> arg_list_buckets a"
  then show "fst (main h c a) = (case fst (list_buckets c) of Inl e \<Rightarrow> 1 | Inr bs \<Rightarrow> 0)"
    unfolding built_def by (simp add: main_list_buckets)
next
  assume "built \<and> \<not> arg_list_buckets a \<and> arg_bucket_name a \<noteq> [] \<and> arg_list a"
  then show "fst (main h c a)
          = (case fst (list_blobs c (arg_bucket_name a) (arg_prefix a) 100) of
               Inl e \<Rightarrow> 1 | Inr blobs \<Rightarrow> 0)"
    unfolding built_def by (simp add: main_list)
next
  assume "uploading s \<and> (is_dir h (locate h s) \<or> arg_recursive a)"
  then show "fst (main h c a)
          = (case fst (upload_directory h c (arg_bucket_name a) (locate h s)
                         (case arg_destination a of None \<Rightarrow> [] | Some d \<Rightarrow> d)
                         (arg_pattern a) (arg_recursive a) (arg_content_type a) None
                         (arg_public a) (\<not> arg_no_overwrite a)) of
               Inl e \<Rightarrow> 1
             | Inr results \<Rightarrow> if list_ex (\<lambda>r. status r = ''error'') results then 1 else 0)"
    unfolding uploading_def built_def by (intro main_directory_status) simp_all
next
  assume "uploading s \<and> \<not> is_dir h (locate h s) \<and> \<not> arg_recursive a"
  then show "fst (main h c a)
          = (case fst (upload_file h c (arg_bucket_name a) (locate h s) (arg_destination a)
                         (arg_content_type a) None (arg_public a) (\<not> arg_no_overwrite a)) of
               Inl e \<Rightarrow> 1 | Inr r \<Rightarrow> 0)"
    unfolding uploading_def built_def by (intro main_file_status) simp_all
qed

text \<open>
  C9 as the specification states it fails: the run \<^verbatim>\<open>gcs_upload.py docs\<close>, with
  valid credentials and no source, is an error and ends with status 2, not 1.
\<close>

theorem exit_status_counterexample:
  "gcs_uploader_init demo_host None = Inr ()
   \<and> fst (main demo_host quiet_cloud (demo_args\<lparr>arg_source := None, arg_recursive := False\<rparr>))
       = 2
   \<and> fst (main demo_host quiet_cloud (demo_args\<lparr>arg_source := None, arg_recursive := False\<rparr>))
       \<noteq> 1
   \<and> calls (snd (main demo_host quiet_cloud
                   (demo_args\<lparr>arg_source := None, arg_recursive := False\<rparr>))) = []"
  by code_simp

theorem exit_status_witness:
  "gcs_uploader_init demo_host (arg_credentials demo_args) = Inr ()
   \<and> fst (main demo_host quiet_cloud (demo_args\<lparr>arg_source := None\<rparr>)) = 2
   \<and> fst (main demo_host quiet_cloud (demo_args\<lparr>arg_credentials := Some ''/keys/none''\<rparr>)) = 1
   \<and> is_dir demo_host (locate demo_host ''/a'')
   \<and> fst (upload_directory demo_host flaky_cloud ''docs'' [''a''] [] ''*'' True None None False
            True)
       = Inr [Success ''/a/x.pdf'' ''x.pdf'' ''docs'' 4 ''application/pdf'' ''gs://docs/x.pdf''
                None ''2024-05-01T12:00:00'',
              Error ''/a/x.json'' ''503 Service Unavailable'',
              Success ''/a/b/c.txt'' ''b/c.txt'' ''docs'' 5 ''text/plain''
                ''gs://docs/b/c.txt'' None ''2024-05-01T12:00:00'']
   \<and> fst (main demo_host flaky_cloud demo_args) = 1
   \<and> fst (main demo_host quiet_cloud demo_args) = 0
   \<and> fst (main demo_host quiet_cloud
            (demo_args\<lparr>arg_source := Some ''/a/x.pdf'', arg_recursive := False\<rparr>)) = 0
   \<and> fst (main demo_host quiet_cloud (demo_args\<lparr>arg_list_buckets := True\<rparr>)) = 0"
proof -
  have b: "gcs_uploader_init demo_host (arg_credentials demo_args) = Inr ()"
    by code_simp
  have nb: "gcs_uploader_init demo_host
      (arg_credentials (demo_args\<lparr>arg_credentials := Some ''/keys/none''\<rparr>)) \<noteq> Inr ()"
    by code_simp
  have d: "is_dir demo_host (locate demo_host ''/a'')"
    by code_simp
  have loc: "locate demo_host ''/a'' = [''a'']"
    by code_simp
  have batch: "fst (upload_directory demo_host flaky_cloud ''docs'' [''a''] [] ''*'' True None
      None False True)
       = Inr [Success ''/a/x.pdf'' ''x.pdf'' ''docs'' 4 ''application/pdf'' ''gs://docs/x.pdf''
                None ''2024-05-01T12:00:00'',
              Error ''/a/x.json'' ''503 Service Unavailable'',
              Success ''/a/b/c.txt'' ''b/c.txt'' ''docs'' 5 ''text/plain''
                ''gs://docs/b/c.txt'' None ''2024-05-01T12:00:00'']"
    by code_simp
  have good: "fst (upload_directory demo_host quiet_cloud ''docs'' [''a''] [] ''*'' True None
      None False True)
       = Inr [Success ''/a/x.pdf'' ''x.pdf'' ''docs'' 4 ''application/pdf'' ''gs://docs/x.pdf''
                None ''2024-05-01T12:00:00'',
              Success ''/a/x.json'' ''x.json'' ''docs'' 2 ''application/json''
                ''gs://docs/x.json'' None ''2024-05-01T12:00:00'',
              Success ''/a/b/c.txt'' ''b/c.txt'' ''docs'' 5 ''text/plain''
                ''gs://docs/b/c.txt'' None ''2024-05-01T12:00:00'']"
    by code_simp
  have nd: "\<not> is_dir demo_host (locate demo_host ''/a/x.pdf'')"
    and loc2: "locate demo_host ''/a/x.pdf'' = [''a'', ''x.pdf'']"
    by code_simp+
  have one: "fst (upload_file demo_host quiet_cloud ''docs'' [''a'', ''x.pdf''] None None None
      False True)
      = Inr (Success ''/a/x.pdf'' ''x.pdf'' ''docs'' 4 ''application/pdf'' ''gs://docs/x.pdf''
               None ''2024-05-01T12:00:00'')"
    by code_simp
  have lb: "fst (list_buckets quiet_cloud) = Inr [''docs'']"
    by code_simp
  from exit_status [where h = demo_host and a = "demo_args\<lparr>arg_source := None\<rparr>"
      and c = quiet_cloud] b
  have w1: "fst (main demo_host quiet_cloud (demo_args\<lparr>arg_source := None\<rparr>)) = 2"
    by (simp add: demo_args_def)
  from exit_status [where h = demo_host
      and a = "demo_args\<lparr>arg_credentials := Some ''/keys/none''\<rparr>" and c = quiet_cloud] nb
  have w2: "fst (main demo_host quiet_cloud
      (demo_args\<lparr>arg_credentials := Some ''/keys/none''\<rparr>)) = 1"
    by blast
  from exit_status [where h = demo_host and a = demo_args and s = "''/a''" and c = flaky_cloud] b d
  have w3: "fst (main demo_host flaky_cloud demo_args) = 1"
    by (simp add: demo_args_def loc batch)
  from exit_status [where h = demo_host and a = demo_args and s = "''/a''" and c = quiet_cloud] b d
  have w4: "fst (main demo_host quiet_cloud demo_args) = 0"
    by (simp add: demo_args_def loc good)
  from exit_status [where h = demo_host
      and a = "demo_args\<lparr>arg_source := Some ''/a/x.pdf'', arg_recursive := False\<rparr>"
      and s = "''/a/x.pdf''" and c = quiet_cloud] b nd
  have w5: "fst (main demo_host quiet_cloud
      (demo_args\<lparr>arg_source := Some ''/a/x.pdf'', arg_recursive := False\<rparr>)) = 0"
    by (simp add: demo_args_def loc2 one)
  from exit_status [where h = demo_host and a = "demo_args\<lparr>arg_list_buckets := True\<rparr>"
      and c = quiet_cloud] b
  have w6: "fst (main demo_host quiet_cloud (demo_args\<lparr>arg_list_buckets := True\<rparr>)) = 0"
    by (simp add: demo_args_def lb)
  from b w1 w2 d batch w3 w4 w5 w6 show ?thesis
    by simp
qed

text \<open>
  C10. In an upload run (the uploader is built, no listing is asked for, bucket name and
  source are given) whose source is a regular file and whose \<^verbatim>\<open>--recursive\<close> flag is
  set, \<^verbatim>\<open>main\<close> calls \<^verbatim>\<open>upload_directory\<close> on the file; that call raises the
  \<^verbatim>\<open>ValueError\<close> of a path that is not a directory, with no call to the Storage Client,
  and the process ends with status 1.
\<close>

theorem recursive_flag_on_file:
  assumes "gcs_uploader_init h (arg_credentials a) = Inr ()" and "\<not> arg_list_buckets a"
    and "arg_bucket_name a \<noteq> []" and "\<not> arg_list a" and "arg_source a = Some s"
    and "s \<noteq> []" and "is_file h (locate h s)" and "arg_recursive a"
  shows "main h c a
         = (case upload_directory h c (arg_bucket_name a) (locate h s)
                   (case arg_destination a of None \<Rightarrow> [] | Some d \<Rightarrow> d)
                   (arg_pattern a) (arg_recursive a) (arg_content_type a) None
                   (arg_public a) (\<not> arg_no_overwrite a) of
              (Inl e, c1) \<Rightarrow> (1, c1)
            | (Inr results, c1) \<Rightarrow>
                (if list_ex (\<lambda>r. status r = ''error'') results then (1, c1) else (0, c1)))
       \<and> upload_directory h c (arg_bucket_name a) (locate h s)
            (case arg_destination a of None \<Rightarrow> [] | Some d \<Rightarrow> d)
            (arg_pattern a) (arg_recursive a) (arg_content_type a) None
            (arg_public a) (\<not> arg_no_overwrite a)
          = (Inl (ValueError (''Source path is not a directory: '' @ str_abs h (locate h s))), c)
       \<and> main h c a = (1, c)"
proof -
  have route: "main h c a
         = (case upload_directory h c (arg_bucket_name a) (locate h s)
                   (case arg_destination a of None \<Rightarrow> [] | Some d \<Rightarrow> d)
                   (arg_pattern a) (arg_recursive a) (arg_content_type a) None
                   (arg_public a) (\<not> arg_no_overwrite a) of
              (Inl e, c1) \<Rightarrow> (1, c1)
            | (Inr results, c1) \<Rightarrow>
                (if list_ex (\<lambda>r. status r = ''error'') results then (1, c1) else (0, c1)))"
    using assms(1-6,8) by (intro main_directory) simp_all
  from assms(7) obtain data where "lookup (root h) (locate h s) = Some (File data)"
    by (auto simp: is_file_lookup)
  then have raise: "upload_directory h c (arg_bucket_name a) (locate h s)
            (case arg_destination a of None \<Rightarrow> [] | Some d \<Rightarrow> d)
            (arg_pattern a) (arg_recursive a) (arg_content_type a) None
            (arg_public a) (\<not> arg_no_overwrite a)
          = (Inl (ValueError (''Source path is not a directory: '' @ str_abs h (locate h s))), c)"
    by (simp add: upload_directory_def)
  from route raise have "main h c a = (1, c)"
    by simp
  with route raise show ?thesis
    by blast
qed

theorem recursive_flag_on_file_witness:
  "gcs_uploader_init demo_host (arg_credentials demo_args) = Inr ()
   \<and> is_file demo_host (locate demo_host ''/a/x.pdf'')
   \<and> arg_recursive (demo_args\<lparr>arg_source := Some ''/a/x.pdf''\<rparr>)
   \<and> upload_directory demo_host quiet_cloud ''docs'' [''a'', ''x.pdf''] [] ''*'' True None None
         False True
       = (Inl (ValueError ''Source path is not a directory: /a/x.pdf''), quiet_cloud)
   \<and> main demo_host quiet_cloud (demo_args\<lparr>arg_source := Some ''/a/x.pdf''\<rparr>)
       = (1, quiet_cloud)"
proof -
  let ?a = "demo_args\<lparr>arg_source := Some ''/a/x.pdf''\<rparr>"
  have h1: "gcs_uploader_init demo_host (arg_credentials ?a) = Inr ()"
    and h2: "\<not> arg_list_buckets ?a" and h3: "arg_bucket_name ?a \<noteq> []"
    and h4: "\<not> arg_list ?a" and h5: "arg_source ?a = Some ''/a/x.pdf''"
    and h6: "''/a/x.pdf'' \<noteq> []" and h7: "is_file demo_host (locate demo_host ''/a/x.pdf'')"
    and h8: "arg_recursive ?a"
    by code_simp+
  have loc: "locate demo_host ''/a/x.pdf'' = [''a'', ''x.pdf'']"
    and str: "str_abs demo_host [''a'', ''x.pdf''] = ''/a/x.pdf''"
    by code_simp+
  have b: "gcs_uploader_init demo_host (arg_credentials demo_args) = Inr ()"
    by code_simp
  from recursive_flag_on_file [OF h1 h2 h3 h4 h5 h6 h7 h8, of quiet_cloud]
  have "upload_directory demo_host quiet_cloud ''docs'' [''a'', ''x.pdf''] [] ''*'' True None
          None False True
        = (Inl (ValueError ''Source path is not a directory: /a/x.pdf''), quiet_cloud)"
    and "main demo_host quiet_cloud ?a = (1, quiet_cloud)"
    by (simp_all add: demo_args_def loc str)
  with b h7 h8 show ?thesis
    by simp
qed

section \<open>What discovery finds\<close>


















text \<open>
  Outside these patterns discovery is another: a component that holds \<^verbatim>\<open>**\<close> and more
  raises, the pattern \<^verbatim>\<open>.\<close> raises unless \<^verbatim>\<open>recursive\<close> holds, a pattern that ends in
  a separator selects directories only, so that no file is discovered, and a subdirectory
  that is a symbolic link is not descended into, though the files below it are regular
  files with matching names.
\<close>

lemma discovery_outside_single_components:
  "discover demo_host [''a''] ''**.pdf'' True
   = Inl (ValueError ''Invalid pattern: ** can only be an entire path component'')
   \<and> discover demo_host [''a''] ''.'' False = Inl (IndexError ''tuple index out of range'')
   \<and> discover demo_host [''a''] ''.'' True = Inr []
   \<and> discover demo_host [''a''] ''*.pdf/'' False = Inr []
   \<and> discover demo_host [''a''] ''*.pdf/'' True = Inr []
   \<and> discover demo_host [''links''] ''*.txt'' True
       = Inr [[''links'', ''f.txt''], [''links'', ''r.txt'']]
   \<and> is_file demo_host [''links'', ''d'', ''c.txt'']
   \<and> fnmatch demo_host ''*.txt'' (name [''links'', ''d'', ''c.txt''])
   \<and> discover demo_host [''a'', ''b''] ''../x.pdf'' False
       = Inr [[''a'', ''b'', ''..'', ''x.pdf'']]"
  by code_simp

end
